theory Spec2Isabelle
  imports Complex_Main "HOL-Library.Word"
begin

unbundle bit_operations_syntax

section \<open>JavaScript values\<close>

text \<open>
  A JavaScript string is a sequence of UTF-16 code units; \<open>charCodeAt\<close> reads one unit.
  Object keys, task names, reasons and error messages are ASCII literals of the
  source and are kept as HOL strings.
\<close>

type_synonym jsstring = "16 word list"

definition lit :: "string \<Rightarrow> jsstring" where
  "lit s = map of_char s"

text \<open>
  Objects are association lists in insertion order. \<open>JIso n\<close> stands for the
  ISO-8601 string that \<open>Date.prototype.toISOString\<close> renders for the instant \<open>n\<close>
  (milliseconds since the epoch).
\<close>

datatype jsval =
    JNull
  | JBool bool
  | JNum real
  | JStr jsstring
  | JIso nat
  | JArr "jsval list"
  | JObj "(string \<times> jsval) list"

type_synonym jsobject = "(string \<times> jsval) list"

text \<open>\<open>field in payload\<close>\<close>

definition has_key :: "string \<Rightarrow> jsobject \<Rightarrow> bool" where
  "has_key k obj = (map_of obj k \<noteq> None)"

text \<open>One property assignment \<open>obj[k] = v\<close>: an existing key keeps its place.\<close>

fun set_prop :: "string \<Rightarrow> jsval \<Rightarrow> jsobject \<Rightarrow> jsobject" where
  "set_prop k v [] = [(k, v)]"
| "set_prop k v ((k', v') # rest) =
     (if k' = k then (k, v) # rest else (k', v') # set_prop k v rest)"

text \<open>\<open>Object.assign({}, obj, src)\<close>\<close>

fun assign :: "jsobject \<Rightarrow> jsobject \<Rightarrow> jsobject" where
  "assign obj [] = obj"
| "assign obj ((k, v) # src) = assign (set_prop k v obj) src"

text \<open>\<open>Math.round\<close>: the nearest integer, a half rounding up.\<close>

definition js_round :: "real \<Rightarrow> int" where
  "js_round x = \<lfloor>x + 1 / 2\<rfloor>"

text \<open>
  What a handler reads from the browser while it runs: \<open>performance.now()\<close>,
  the wall clock, \<open>navigator.onLine\<close>, and the device description that
  \<open>TaskCore.init\<close> posts. A handler runs at one instant, so every read of a clock
  inside one handler gives the same value.
\<close>

record env =
  perfNow :: real
  wallNow :: nat
  onLine :: bool
  timezoneOffset :: int
  deviceMeta :: jsobject

section \<open>Seeded generator (\<open>makeRng\<close> of pvt.js, sart.js, flanker.js, digit_symbol.js)\<close>

text \<open>
  The string hash \<open>h = (Math.imul(31, h) + seed.charCodeAt(i)) | 0\<close> is arithmetic
  modulo \<open>2^32\<close>, so \<open>h\<close> is a 32-bit word during the loop.
\<close>

type_synonym int32 = "32 word"

fun hashSeed :: "int32 \<Rightarrow> jsstring \<Rightarrow> int32" where
  "hashSeed hv [] = hv"
| "hashSeed hv (c # cs) = hashSeed (31 * hv + ucast c) cs"

text \<open>
  The final mixing step ends in \<open>| 0\<close>, so the closure starts from a signed 32-bit
  value. The four files differ in the mixing constants only.
\<close>

definition makeRng_pvt :: "jsstring \<Rightarrow> int" where
  "makeRng_pvt seed = sint (hashSeed 0 seed * 1664525 + 1013904223)"

definition makeRng_sart :: "jsstring \<Rightarrow> int" where
  "makeRng_sart seed = sint (hashSeed 0 seed * 22695477 + 1)"

definition makeRng_flanker :: "jsstring \<Rightarrow> int" where
  "makeRng_flanker seed = sint (hashSeed 0 seed * 1664525 + 1013904223)"

definition makeRng_ds :: "jsstring \<Rightarrow> int" where
  "makeRng_ds seed = sint (hashSeed 0 seed * 69069 + 1)"

text \<open>
  The returned closure. \<open>h += 0x6d2b79f5\<close> has no \<open>| 0\<close>: \<open>h\<close> is a JavaScript
  number that keeps growing, modelled as an integer (the addition is exact in a double
  below \<open>2^53\<close>, that is for the first 4.9 million draws of a generator). The bitwise
  operators and \<open>Math.imul\<close> read their operands modulo \<open>2^32\<close>; \<open>>>>\<close> is the
  logical shift. The result \<open>(\<dots> >>> 0) / 4294967296\<close> is an unsigned 32-bit value
  divided by \<open>2^32\<close>, exact in a double.
\<close>

definition mulberry :: "int \<Rightarrow> int32" where
  "mulberry hv =
    (let w = (word_of_int hv :: int32);
         t = (w XOR drop_bit 15 w) * (1 OR w);
         t = t XOR (t + (t XOR drop_bit 7 t) * (61 OR t))
     in t XOR drop_bit 14 t)"

definition rng :: "int \<Rightarrow> real \<times> int" where
  "rng hv = (let hv = hv + 0x6d2b79f5 in (real (unat (mulberry hv)) / 4294967296, hv))"

text \<open>The first \<open>n\<close> values a closure with state \<open>hv\<close> returns.\<close>

fun rng_draws :: "nat \<Rightarrow> int \<Rightarrow> real list" where
  "rng_draws 0 hv = []"
| "rng_draws (Suc n) hv = (case rng hv of (r, hv') \<Rightarrow> r # rng_draws n hv')"

text \<open>
  The closure inside a task module: its variable \<open>h\<close>, and a ghost log of the values
  it has returned so far (not a variable of the source).
\<close>

record generator =
  gen_h :: int
  drawn :: "real list"

definition draw :: "generator \<Rightarrow> real \<times> generator" where
  "draw g = (case rng (gen_h g) of (r, hv) \<Rightarrow> (r, \<lparr>gen_h = hv, drawn = drawn g @ [r]\<rparr>))"

definition new_generator :: "int \<Rightarrow> generator" where
  "new_generator hv = \<lparr>gen_h = hv, drawn = []\<rparr>"

section \<open>task_core.js\<close>

datatype task_name = PvtTask | SartTask | MoodTask | FlankerTask | DigitSymbolTask

text \<open>A request handed to \<open>fetch\<close>: the global that names the URL, the CSRF header, the body.\<close>

record request =
  url :: string
  csrf_header :: jsval
  body :: jsobject

text \<open>
  The module variables \<open>_sessionId\<close>, \<open>_csrfToken\<close>, \<open>_initPerfTime\<close>,
  \<open>_interruptions\<close>, \<open>_activeTask\<close>, and what the module does to the page: whether
  its event listeners are attached, the offline banner, the "back online" prompts.
  \<open>fetches\<close> and \<open>submitLog\<close> are ghost logs: every request given to \<open>fetch\<close>, and
  every payload \<open>TaskCore.submit\<close> was called with, oldest first.
\<close>

record task_core =
  sessionId :: jsval
  csrfToken :: jsval
  initPerfTime :: "real option"
  interruptions :: "jsval list"
  activeTask :: "task_name option"
  listenersAttached :: bool
  offlineBanner :: bool
  onlinePrompts :: nat
  fetches :: "request list"
  submitLog :: "jsobject list"

definition core0 :: task_core where
  "core0 = \<lparr>sessionId = JNull, csrfToken = JNull, initPerfTime = None, interruptions = [],
            activeTask = None, listenersAttached = False, offlineBanner = False,
            onlinePrompts = 0, fetches = [], submitLog = []\<rparr>"

text \<open>
  \<open>TaskCore.init(sessionId, csrfToken)\<close>, called once per page load on the fresh
  module state. The meta POST is fire-and-forget.
\<close>

definition TaskCore_init :: "env \<Rightarrow> jsval \<Rightarrow> jsval \<Rightarrow> task_core" where
  "TaskCore_init e sid tok =
     core0\<lparr>sessionId := sid, csrfToken := tok, initPerfTime := Some (perfNow e),
           fetches := [\<lparr>url = ''SESSION_META_URL'', csrf_header = tok,
                        body = [(''session_id'', sid),
                                (''timezone_offset_minutes'', JNum (real_of_int (timezoneOffset e))),
                                (''device_meta'', JObj (deviceMeta e))]\<rparr>],
           listenersAttached := True\<rparr>"

definition REQUIRED :: "string list" where
  "REQUIRED = [''session_id'', ''task_type'', ''task_version'', ''started_at'', ''ended_at'',
               ''duration_ms'', ''input_modality'', ''trials'', ''summary'']"

text \<open>The loop over \<open>REQUIRED\<close>: the first field that is not a key of the payload.\<close>

fun first_missing :: "string list \<Rightarrow> jsobject \<Rightarrow> string option" where
  "first_missing [] payload = None"
| "first_missing (field # rest) payload =
     (if \<not> has_key field payload then Some field else first_missing rest payload)"

text \<open>
  The promise \<open>submit\<close> returns: rejected at once with an \<open>Error\<close> of the given
  message, or the promise of a \<open>fetch\<close> that was issued.
\<close>

datatype submit_result = Rejected string | Fetching

definition submit :: "env \<Rightarrow> jsobject \<Rightarrow> task_core \<Rightarrow> submit_result \<times> task_core" where
  "submit e payload c =
     (let c = c\<lparr>submitLog := submitLog c @ [payload]\<rparr> in
      case first_missing REQUIRED payload of
        Some field \<Rightarrow> (Rejected (''Missing required field: '' @ field), c)
      | None \<Rightarrow>
          if \<not> onLine e then (Rejected ''You are offline. Cannot submit task result.'', c)
          else (Fetching,
                c\<lparr>fetches := fetches c @
                     [\<lparr>url = ''TASK_SUBMIT_URL'', csrf_header = csrfToken c,
                       body = assign payload [(''session_id'', sessionId c),
                                              (''interruptions'', JArr (interruptions c))]\<rparr>]\<rparr>))"

definition wallClock :: "env \<Rightarrow> jsval" where
  "wallClock e = JIso (wallNow e)"

text \<open>\<open>logEvent(type, detail)\<close>; every caller in the source passes \<open>{ at: wallClock() }\<close>.\<close>

definition logEvent :: "env \<Rightarrow> string \<Rightarrow> jsval \<Rightarrow> task_core \<Rightarrow> task_core" where
  "logEvent e ty det c =
     c\<lparr>interruptions := interruptions c @
          [JObj [(''type'', JStr (lit ty)), (''detail'', det), (''at'', wallClock e)]]\<rparr>"

definition TaskCore_now :: "env \<Rightarrow> task_core \<Rightarrow> real" where
  "TaskCore_now e c = (case initPerfTime c of None \<Rightarrow> 0 | Some t0 \<Rightarrow> perfNow e - t0)"

definition registerTask :: "task_name \<Rightarrow> task_core \<Rightarrow> task_core" where
  "registerTask t c = c\<lparr>activeTask := Some t\<rparr>"

section \<open>What every task page holds\<close>

text \<open>
  \<open>config\<close> is the object the template passes to \<open>init\<close>; a field that is absent is
  \<open>None\<close>. \<open>config.seed || ""\<close> and \<open>config.durationMs || DEFAULT\<close> replace a falsy
  value (absent, the empty string, zero) by the default.
\<close>

record config =
  config_seed :: "jsstring option"
  config_durationMs :: "real option"

definition seed_or_empty :: "config \<Rightarrow> jsstring" where
  "seed_or_empty cfg = (case config_seed cfg of None \<Rightarrow> [] | Some s \<Rightarrow> s)"

definition duration_or :: "config \<Rightarrow> real \<Rightarrow> real" where
  "duration_or cfg dflt =
     (case config_durationMs cfg of None \<Rightarrow> dflt | Some d \<Rightarrow> if d = 0 then dflt else d)"

text \<open>The functions a task hands to \<open>setTimeout\<close>, over the four timed tasks.\<close>

datatype callback =
    CbEndTask
  | CbShowStimulus
  | CbNoResponse
  | CbHideStimulus
  | CbResponseWindowEnd
  | CbTrialTimeout
  | CbShowNextTrial

text \<open>The \<open>textContent\<close> of the element a task writes its stimulus and messages to.\<close>

datatype display = Blank | Counter int | Stimulus jsval | Submitting | ErrorText string

text \<open>
  A page has the state of \<open>TaskCore\<close> and the task's \<open>startedAt\<close>. A timed task
  (a runner) adds the browser's pending timeouts (identifier, delay, callback), its
  generator, and the closure variables the four timed tasks share. \<open>listening\<close> tells
  whether the task's input listeners on the container (or the document) are attached.
\<close>

record page =
  core :: task_core
  startedAt :: jsval

record runner = page +
  nextTimerId :: nat
  timeouts :: "(nat \<times> real \<times> callback) list"
  gen :: generator
  durationMs :: real
  trials :: "jsobject list"
  isRunning :: bool
  isPaused :: bool
  isStopped :: bool
  taskEndTimer :: "nat option"
  display :: display
  listening :: bool

definition setTimeout :: "callback \<Rightarrow> real \<Rightarrow> 'a runner_scheme \<Rightarrow> nat \<times> 'a runner_scheme" where
  "setTimeout cb delay st =
     (nextTimerId st,
      st\<lparr>nextTimerId := Suc (nextTimerId st),
         timeouts := timeouts st @ [(nextTimerId st, delay, cb)]\<rparr>)"

text \<open>\<open>clearTimeout(handle)\<close>; a \<open>null\<close> handle or one that is no longer pending does nothing.\<close>

definition clearTimeout :: "nat option \<Rightarrow> 'a runner_scheme \<Rightarrow> 'a runner_scheme" where
  "clearTimeout handle st =
     (case handle of None \<Rightarrow> st
      | Some i \<Rightarrow> st\<lparr>timeouts := filter (\<lambda>t. fst t \<noteq> i) (timeouts st)\<rparr>)"


text \<open>One call \<open>rng()\<close> of the task's generator.\<close>

definition rng_call :: "'a runner_scheme \<Rightarrow> real \<times> 'a runner_scheme" where
  "rng_call st = (case draw (gen st) of (r, g) \<Rightarrow> (r, st\<lparr>gen := g\<rparr>))"

text \<open>
  The object literal every timed task passes to \<open>TaskCore.submit\<close> in \<open>endTask\<close>; the
  four files write the same literal and differ in \<open>TASK_TYPE\<close>. There is no
  \<open>session_id\<close> key.
\<close>

definition task_payload :: "string \<Rightarrow> jsval \<Rightarrow> 'a runner_scheme \<Rightarrow> jsobject" where
  "task_payload task_type endedAt st =
     [(''task_type'', JStr (lit task_type)),
      (''task_version'', JStr (lit ''1.0'')),
      (''started_at'', startedAt st),
      (''ended_at'', endedAt),
      (''duration_ms'', JNum (durationMs st)),
      (''input_modality'', JStr (lit ''touch'')),
      (''trials'', JArr (map JObj (trials st))),
      (''summary'', JObj [])]"

text \<open>
  \<open>TaskCore.submit({\<dots>}).then(\<dots>).catch(\<dots>)\<close> as \<open>endTask\<close> writes it. A rejected
  promise runs the \<open>catch\<close> handler, which shows the message; what the server answers
  to an issued request is outside the model.
\<close>

definition submit_task :: "string \<Rightarrow> env \<Rightarrow> 'a runner_scheme \<Rightarrow> 'a runner_scheme" where
  "submit_task task_type e st =
     (case submit e (task_payload task_type (wallClock e) st) (core st) of
        (Rejected msg, c) \<Rightarrow> st\<lparr>core := c, display := ErrorText (''Error: '' @ msg)\<rparr>
      | (Fetching, c) \<Rightarrow> st\<lparr>core := c\<rparr>)"

section \<open>The listeners of task_core.js\<close>

text \<open>
  What the browser delivers to a page: input on the task's elements, a timeout or an
  animation frame coming due, and the lifecycle events \<open>TaskCore\<close> listens for.
\<close>

datatype event =
    Click
  | Keydown jsstring
  | ClickLeft
  | ClickRight
  | ClickOption nat
  | ClickRating string nat
  | ClickSubmit
  | Fire nat
  | Frame nat
  | VisibilityHidden
  | VisibilityVisible
  | PageHide
  | BeforeUnload
  | Offline
  | Online

text \<open>
  The listeners call the methods of the registered task object. One task module is
  loaded per page, so the object, when there is one, is that module's; its methods
  \<open>pause\<close>, \<open>resume\<close>, \<open>abort\<close> are the parameters here.
\<close>

definition lifecycle ::
  "('a page_scheme \<Rightarrow> 'a page_scheme) \<Rightarrow> (env \<Rightarrow> 'a page_scheme \<Rightarrow> 'a page_scheme) \<Rightarrow>
   (string \<Rightarrow> 'a page_scheme \<Rightarrow> 'a page_scheme) \<Rightarrow> env \<Rightarrow> event \<Rightarrow> 'a page_scheme \<Rightarrow> 'a page_scheme" where
  "lifecycle pause resume abort e ev st =
     (let logged = (\<lambda>ty. st\<lparr>core := logEvent e ty (JObj [(''at'', wallClock e)]) (core st)\<rparr>);
          registered = (activeTask (core st) \<noteq> None)
      in if \<not> listenersAttached (core st) then st
         else case ev of
           VisibilityHidden \<Rightarrow>
             (if registered then pause (logged ''visibility_hidden'') else logged ''visibility_hidden'')
         | VisibilityVisible \<Rightarrow>
             (if registered then resume e (logged ''visibility_visible'') else logged ''visibility_visible'')
         | PageHide \<Rightarrow>
             (if registered then abort ''pagehide'' (logged ''pagehide'') else logged ''pagehide'')
         | BeforeUnload \<Rightarrow>
             (if registered then abort ''beforeunload'' (logged ''beforeunload'') else logged ''beforeunload'')
         | Offline \<Rightarrow>
             (let st = (if registered then abort ''offline'' (logged ''offline'') else logged ''offline'')
              in st\<lparr>core := (core st)\<lparr>offlineBanner := True\<rparr>\<rparr>)
         | Online \<Rightarrow>
             st\<lparr>core := (core st)\<lparr>offlineBanner := False, onlinePrompts := Suc (onlinePrompts (core st))\<rparr>\<rparr>
         | _ \<Rightarrow> st)"

section \<open>pvt.js\<close>

definition ISI_MIN :: real where "ISI_MIN = 2000"
definition ISI_MAX :: real where "ISI_MAX = 10000"
definition LAPSE_THRESHOLD :: int where "LAPSE_THRESHOLD = 500"
definition ANTICIPATION_THRESHOLD :: int where "ANTICIPATION_THRESHOLD = 100"
definition NO_RESPONSE_THRESHOLD :: real where "NO_RESPONSE_THRESHOLD = 2000"

text \<open>
  The closure variables of \<open>init\<close> that only pvt.js has, and the pending animation
  frames (the only function given to \<open>requestAnimationFrame\<close> is \<open>animate\<close>).
\<close>

record pvt_state = runner +
  taskStartMs :: real
  stimulusStartMs :: "real option"
  isiTimer :: "nat option"
  noResponseTimer :: "nat option"
  animTimer :: "nat option"
  nextFrameId :: nat
  frames :: "nat list"

definition requestAnimationFrame :: "pvt_state \<Rightarrow> nat \<times> pvt_state" where
  "requestAnimationFrame st =
     (nextFrameId st, st\<lparr>nextFrameId := Suc (nextFrameId st), frames := frames st @ [nextFrameId st]\<rparr>)"

definition cancelAnimationFrame :: "nat option \<Rightarrow> pvt_state \<Rightarrow> pvt_state" where
  "cancelAnimationFrame handle st =
     (case handle of None \<Rightarrow> st | Some i \<Rightarrow> st\<lparr>frames := filter (\<lambda>j. j \<noteq> i) (frames st)\<rparr>)"

definition randomISI :: "pvt_state \<Rightarrow> real \<times> pvt_state" where
  "randomISI st = (case rng_call st of (r, st) \<Rightarrow> (ISI_MIN + r * (ISI_MAX - ISI_MIN), st))"

definition clearTimers :: "pvt_state \<Rightarrow> pvt_state" where
  "clearTimers st =
     (let st = clearTimeout (isiTimer st) st;
          st = clearTimeout (noResponseTimer st) st;
          st = cancelAnimationFrame (animTimer st) st
      in clearTimeout (taskEndTimer st) st)"

definition startISI :: "pvt_state \<Rightarrow> pvt_state" where
  "startISI st =
     (if \<not> isRunning st \<or> isPaused st then st
      else let st = st\<lparr>stimulusStartMs := None, display := Blank\<rparr>;
               (isi, st) = randomISI st;
               (i, st) = setTimeout CbShowStimulus isi st
           in st\<lparr>isiTimer := Some i\<rparr>)"

text \<open>The function \<open>animate\<close> inside \<open>showStimulus\<close>.\<close>

definition animate :: "env \<Rightarrow> pvt_state \<Rightarrow> pvt_state" where
  "animate e st =
     (case stimulusStartMs st of
        None \<Rightarrow> st
      | Some s \<Rightarrow>
          if \<not> isRunning st then st
          else let st = st\<lparr>display := Counter (js_round (TaskCore_now e (core st) - s))\<rparr>;
                   (i, st) = requestAnimationFrame st
               in st\<lparr>animTimer := Some i\<rparr>)"

definition showStimulus :: "env \<Rightarrow> pvt_state \<Rightarrow> pvt_state" where
  "showStimulus e st =
     (if \<not> isRunning st \<or> isPaused st then st
      else let st = st\<lparr>stimulusStartMs := Some (TaskCore_now e (core st))\<rparr>;
               (i, st) = requestAnimationFrame st;
               st = st\<lparr>animTimer := Some i\<rparr>;
               (j, st) = setTimeout CbNoResponse NO_RESPONSE_THRESHOLD st
           in st\<lparr>noResponseTimer := Some j\<rparr>)"

definition recordResponse :: "bool \<Rightarrow> env \<Rightarrow> pvt_state \<Rightarrow> pvt_state" where
  "recordResponse isUserTap e st =
     (let responseMs = TaskCore_now e (core st) in
      case stimulusStartMs st of
        None \<Rightarrow>
          if \<not> isUserTap then st
          else let st = clearTimeout (isiTimer st) st;
                   st = st\<lparr>trials := trials st @
                          [[(''stimulus_at_ms'', JNull),
                            (''response_at_ms'', JNum (real_of_int (js_round responseMs))),
                            (''rt_ms'', JNull),
                            (''is_anticipation'', JBool True),
                            (''is_lapse'', JBool False),
                            (''responded'', JBool True)]]\<rparr>
               in startISI st
      | Some s \<Rightarrow>
          let st = clearTimeout (noResponseTimer st) st;
              st = cancelAnimationFrame (animTimer st) st;
              rtMs = js_round (responseMs - s);
              isAnticipation = (rtMs < ANTICIPATION_THRESHOLD);
              isLapse = (rtMs > LAPSE_THRESHOLD);
              st = st\<lparr>trials := trials st @
                     [[(''stimulus_at_ms'', JNum (real_of_int (js_round s))),
                       (''response_at_ms'', JNum (real_of_int (js_round responseMs))),
                       (''rt_ms'', if isUserTap then JNum (real_of_int rtMs) else JNull),
                       (''is_anticipation'', JBool isAnticipation),
                       (''is_lapse'', JBool (isLapse \<or> \<not> isUserTap)),
                       (''responded'', JBool isUserTap)]]\<rparr>;
              st = st\<lparr>stimulusStartMs := None, display := Blank\<rparr>
          in if isRunning st then startISI st else st)"

text \<open>The function given to \<open>setTimeout\<close> with \<open>NO_RESPONSE_THRESHOLD\<close>.\<close>

definition noResponse :: "env \<Rightarrow> pvt_state \<Rightarrow> pvt_state" where
  "noResponse e st =
     (if stimulusStartMs st \<noteq> None \<and> isRunning st then recordResponse False e st else st)"

definition pvt_handleInteraction :: "env \<Rightarrow> pvt_state \<Rightarrow> pvt_state" where
  "pvt_handleInteraction e st =
     (if \<not> isRunning st \<or> isPaused st \<or> isStopped st then st else recordResponse True e st)"

definition pvt_endTask :: "env \<Rightarrow> pvt_state \<Rightarrow> pvt_state" where
  "pvt_endTask e st =
     (if isStopped st then st
      else let st = st\<lparr>isStopped := True, isRunning := False\<rparr>;
               st = clearTimers st;
               st = st\<lparr>listening := False, display := Submitting\<rparr>
           in submit_task ''pvt'' e st)"

definition pvt_pause :: "pvt_state \<Rightarrow> pvt_state" where
  "pvt_pause st =
     (let st = st\<lparr>isPaused := True\<rparr>;
          st = clearTimeout (isiTimer st) st;
          st = clearTimeout (noResponseTimer st) st
      in cancelAnimationFrame (animTimer st) st)"

definition pvt_resume :: "env \<Rightarrow> pvt_state \<Rightarrow> pvt_state" where
  "pvt_resume e st = startISI (st\<lparr>isPaused := False\<rparr>)"

definition pvt_abort :: "string \<Rightarrow> pvt_state \<Rightarrow> pvt_state" where
  "pvt_abort reason st = clearTimers (st\<lparr>isStopped := True, isRunning := False\<rparr>)"

text \<open>\<open>PvtTask.init(config)\<close>, on a page where \<open>TaskCore\<close> is in state \<open>c\<close>.\<close>

definition pvt_init :: "env \<Rightarrow> config \<Rightarrow> task_core \<Rightarrow> pvt_state" where
  "pvt_init e cfg c =
     (let st = \<lparr>core = c, startedAt = wallClock e,
                nextTimerId = 1, timeouts = [],
                gen = new_generator (makeRng_pvt (seed_or_empty cfg @ lit ''_pvt'')),
                durationMs = duration_or cfg 60000,
                trials = [], isRunning = False, isPaused = False, isStopped = False,
                taskEndTimer = None, display = Blank, listening = False,
                taskStartMs = TaskCore_now e c, stimulusStartMs = None,
                isiTimer = None, noResponseTimer = None, animTimer = None,
                nextFrameId = 1, frames = []\<rparr>;
          st = st\<lparr>isRunning := True, listening := True\<rparr>;
          st = startISI st;
          (i, st) = setTimeout CbEndTask (durationMs st) st;
          st = st\<lparr>taskEndTimer := Some i\<rparr>
      in st\<lparr>core := registerTask PvtTask (core st)\<rparr>)"

text \<open>One event on the PVT page. A timeout or a frame runs once and leaves the queue.\<close>

definition pvt_fire :: "env \<Rightarrow> nat \<Rightarrow> pvt_state \<Rightarrow> pvt_state" where
  "pvt_fire e i st =
     (case map_of (timeouts st) i of
        None \<Rightarrow> st
      | Some (delay, cb) \<Rightarrow>
          let st = st\<lparr>timeouts := filter (\<lambda>t. fst t \<noteq> i) (timeouts st)\<rparr>
          in case cb of
               CbShowStimulus \<Rightarrow> showStimulus e st
             | CbNoResponse \<Rightarrow> noResponse e st
             | CbEndTask \<Rightarrow> pvt_endTask e st
             | _ \<Rightarrow> st)"

definition pvt_step :: "env \<Rightarrow> event \<Rightarrow> pvt_state \<Rightarrow> pvt_state" where
  "pvt_step e ev st =
     (case ev of
        Click \<Rightarrow> if listening st then pvt_handleInteraction e st else st
      | Fire i \<Rightarrow> pvt_fire e i st
      | Frame i \<Rightarrow>
          if i \<in> set (frames st) then animate e (st\<lparr>frames := filter (\<lambda>j. j \<noteq> i) (frames st)\<rparr>)
          else st
      | Keydown k \<Rightarrow> st
      | ClickLeft \<Rightarrow> st
      | ClickRight \<Rightarrow> st
      | ClickOption k \<Rightarrow> st
      | ClickRating k v \<Rightarrow> st
      | ClickSubmit \<Rightarrow> st
      | _ \<Rightarrow> lifecycle pvt_pause pvt_resume pvt_abort e ev st)"

text \<open>A run: the events a page receives, each with what the browser reports at that moment.\<close>

fun run :: "(env \<Rightarrow> event \<Rightarrow> 's \<Rightarrow> 's) \<Rightarrow> (env \<times> event) list \<Rightarrow> 's \<Rightarrow> 's" where
  "run step [] st = st"
| "run step ((e, ev) # evs) st = run step evs (step e ev st)"

section \<open>sart.js\<close>

definition STIMULUS_MS :: real where "STIMULUS_MS = 250"
definition sart_ISI_MS :: real where "sart_ISI_MS = 900"
definition NOGO_DIGIT :: nat where "NOGO_DIGIT = 3"

text \<open>
  \<open>buildSequence(rng, durationMs)\<close>. The loop runs \<open>count\<close> times; \<open>goDigits\<close> is
  \<open>digits\<close> without the no-go digit, and the index \<open>Math.floor(rng() * 8)\<close> is below 8
  because a draw is below 1. The literal \<open>0.111\<close> is compared with a multiple of
  \<open>2^-32\<close>, and \<open>0.111 * 2^32\<close> is not within a double's rounding of an integer, so the
  comparison of doubles is the comparison of the reals.
\<close>

definition goDigits :: "nat list" where
  "goDigits = filter (\<lambda>d. d \<noteq> NOGO_DIGIT) [1, 2, 3, 4, 5, 6, 7, 8, 9]"

fun buildSequence_loop :: "nat \<Rightarrow> generator \<Rightarrow> nat list \<Rightarrow> nat list \<times> generator" where
  "buildSequence_loop 0 g seq = (seq, g)"
| "buildSequence_loop (Suc n) g seq =
     (case draw g of (r, g) \<Rightarrow>
        if r < 111 / 1000 then buildSequence_loop n g (seq @ [NOGO_DIGIT])
        else (case draw g of (r', g) \<Rightarrow>
                buildSequence_loop n g (seq @ [goDigits ! nat \<lfloor>r' * real (length goDigits)\<rfloor>])))"

definition buildSequence :: "generator \<Rightarrow> real \<Rightarrow> nat list \<times> generator" where
  "buildSequence g dur =
     (let trialDuration = STIMULUS_MS + sart_ISI_MS;
          count = \<lceil>dur / trialDuration\<rceil> + 5
      in buildSequence_loop (nat count) g [])"

text \<open>The closure variables that sart.js and flanker.js both have.\<close>

record trial_runner = runner +
  trialTimer :: "nat option"
  currentTrialStart :: "real option"
  responded :: bool

record sart_state = trial_runner +
  sequence :: "nat list"
  seqIndex :: nat
  currentDigit :: "nat option"

definition digit_val :: "nat option \<Rightarrow> jsval" where
  "digit_val d = (case d of None \<Rightarrow> JNull | Some n \<Rightarrow> JNum (real n))"

text \<open>\<open>TaskCore.now() - currentTrialStart\<close>; a \<open>null\<close> start counts as 0 in the subtraction.\<close>

definition since_trial_start :: "env \<Rightarrow> 'a trial_runner_scheme \<Rightarrow> real" where
  "since_trial_start e st =
     (case currentTrialStart st of
        None \<Rightarrow> TaskCore_now e (core st)
      | Some s \<Rightarrow> TaskCore_now e (core st) - s)"

definition sart_endTask :: "env \<Rightarrow> sart_state \<Rightarrow> sart_state" where
  "sart_endTask e st =
     (if isStopped st then st
      else let st = st\<lparr>isStopped := True, isRunning := False\<rparr>;
               st = clearTimeout (trialTimer st) st;
               st = clearTimeout (taskEndTimer st) st;
               st = st\<lparr>listening := False, display := Submitting\<rparr>
           in submit_task ''sart'' e st)"

definition sart_showNextTrial :: "env \<Rightarrow> sart_state \<Rightarrow> sart_state" where
  "sart_showNextTrial e st =
     (if \<not> isRunning st \<or> isPaused st \<or> seqIndex st \<ge> length (sequence st) then sart_endTask e st
      else let st = st\<lparr>currentDigit := Some (sequence st ! seqIndex st), seqIndex := Suc (seqIndex st)\<rparr>;
               st = st\<lparr>currentTrialStart := Some (TaskCore_now e (core st)), responded := False,
                       display := Stimulus (digit_val (currentDigit st))\<rparr>;
               (i, st) = setTimeout CbHideStimulus STIMULUS_MS st
           in st\<lparr>trialTimer := Some i\<rparr>)"

text \<open>The outer function given to \<open>setTimeout\<close> in \<open>showNextTrial\<close>, then the inner one.\<close>

definition hideStimulus :: "sart_state \<Rightarrow> sart_state" where
  "hideStimulus st =
     (let st = st\<lparr>display := Blank\<rparr>;
          (i, st) = setTimeout CbResponseWindowEnd (sart_ISI_MS - STIMULUS_MS) st
      in st\<lparr>trialTimer := Some i\<rparr>)"

definition responseWindowEnd :: "env \<Rightarrow> sart_state \<Rightarrow> sart_state" where
  "responseWindowEnd e st =
     (let st = (if \<not> responded st
                then let isNogo = (currentDigit st = Some NOGO_DIGIT)
                     in st\<lparr>trials := trials st @
                            [[(''digit'', digit_val (currentDigit st)),
                              (''is_nogo'', JBool isNogo),
                              (''responded'', JBool False),
                              (''rt_ms'', JNull),
                              (''is_commission'', JBool False),
                              (''is_omission'', JBool (\<not> isNogo))]]\<rparr>
                else st)
      in sart_showNextTrial e st)"

definition sart_handleInteraction :: "env \<Rightarrow> sart_state \<Rightarrow> sart_state" where
  "sart_handleInteraction e st =
     (if \<not> isRunning st \<or> isPaused st \<or> isStopped st \<or> responded st then st
      else let rtMs = js_round (since_trial_start e st);
               isNogo = (currentDigit st = Some NOGO_DIGIT);
               st = st\<lparr>responded := True\<rparr>
           in st\<lparr>trials := trials st @
                  [[(''digit'', digit_val (currentDigit st)),
                    (''is_nogo'', JBool isNogo),
                    (''responded'', JBool True),
                    (''rt_ms'', JNum (real_of_int rtMs)),
                    (''is_commission'', JBool isNogo),
                    (''is_omission'', JBool False)]]\<rparr>)"

definition sart_pause :: "sart_state \<Rightarrow> sart_state" where
  "sart_pause st =
     (let st = st\<lparr>isPaused := True\<rparr>;
          st = clearTimeout (trialTimer st) st
      in st\<lparr>display := Blank\<rparr>)"

definition sart_resume :: "env \<Rightarrow> sart_state \<Rightarrow> sart_state" where
  "sart_resume e st = sart_showNextTrial e (st\<lparr>isPaused := False\<rparr>)"

definition sart_abort :: "string \<Rightarrow> sart_state \<Rightarrow> sart_state" where
  "sart_abort reason st =
     (let st = st\<lparr>isStopped := True, isRunning := False\<rparr>;
          st = clearTimeout (trialTimer st) st
      in clearTimeout (taskEndTimer st) st)"

definition sart_init :: "env \<Rightarrow> config \<Rightarrow> task_core \<Rightarrow> sart_state" where
  "sart_init e cfg c =
     (let dur = duration_or cfg 75000;
          (seq, g) = buildSequence (new_generator (makeRng_sart (seed_or_empty cfg @ lit ''_sart''))) dur;
          st = \<lparr>core = c, startedAt = wallClock e,
                nextTimerId = 1, timeouts = [], gen = g, durationMs = dur,
                trials = [], isRunning = False, isPaused = False, isStopped = False,
                taskEndTimer = None, display = Blank, listening = False,
                trialTimer = None, currentTrialStart = None, responded = False,
                sequence = seq, seqIndex = 0, currentDigit = None\<rparr>;
          st = st\<lparr>isRunning := True, listening := True\<rparr>;
          st = sart_showNextTrial e st;
          (i, st) = setTimeout CbEndTask (durationMs st) st;
          st = st\<lparr>taskEndTimer := Some i\<rparr>
      in st\<lparr>core := registerTask SartTask (core st)\<rparr>)"

definition sart_fire :: "env \<Rightarrow> nat \<Rightarrow> sart_state \<Rightarrow> sart_state" where
  "sart_fire e i st =
     (case map_of (timeouts st) i of
        None \<Rightarrow> st
      | Some (delay, cb) \<Rightarrow>
          let st = st\<lparr>timeouts := filter (\<lambda>t. fst t \<noteq> i) (timeouts st)\<rparr>
          in case cb of
               CbHideStimulus \<Rightarrow> hideStimulus st
             | CbResponseWindowEnd \<Rightarrow> responseWindowEnd e st
             | CbEndTask \<Rightarrow> sart_endTask e st
             | _ \<Rightarrow> st)"

definition sart_step :: "env \<Rightarrow> event \<Rightarrow> sart_state \<Rightarrow> sart_state" where
  "sart_step e ev st =
     (case ev of
        Click \<Rightarrow> if listening st then sart_handleInteraction e st else st
      | Fire i \<Rightarrow> sart_fire e i st
      | Frame i \<Rightarrow> st
      | Keydown k \<Rightarrow> st
      | ClickLeft \<Rightarrow> st
      | ClickRight \<Rightarrow> st
      | ClickOption k \<Rightarrow> st
      | ClickRating k v \<Rightarrow> st
      | ClickSubmit \<Rightarrow> st
      | _ \<Rightarrow> lifecycle sart_pause sart_resume sart_abort e ev st)"

section \<open>flanker.js\<close>

definition RESPONSE_WINDOW_MS :: real where "RESPONSE_WINDOW_MS = 500"
definition flanker_ISI_MS :: real where "flanker_ISI_MS = 500"

text \<open>What \<open>buildTrial\<close> returns.\<close>

record stimulus =
  arrows :: string
  direction :: string
  is_congruent :: bool

definition buildTrial :: "generator \<Rightarrow> stimulus \<times> generator" where
  "buildTrial g =
     (case draw g of (r, g) \<Rightarrow>
      case draw g of (r', g) \<Rightarrow>
        let isCongruent = (r < 1 / 2);
            dir = (if r' < 1 / 2 then ''left'' else ''right'');
            arr = (if isCongruent
                   then (if dir = ''left'' then ''< < < < <'' else ''> > > > >'')
                   else (if dir = ''left'' then ''> > < > >'' else ''< < > < <''))
        in (\<lparr>arrows = arr, direction = dir, is_congruent = isCongruent\<rparr>, g))"

record flanker_state = trial_runner +
  currentTrial :: "stimulus option"

definition flanker_showNextTrial :: "env \<Rightarrow> flanker_state \<Rightarrow> flanker_state" where
  "flanker_showNextTrial e st =
     (if \<not> isRunning st \<or> isPaused st \<or> isStopped st then st
      else case buildTrial (gen st) of (tr, g) \<Rightarrow>
           let st = st\<lparr>gen := g, currentTrial := Some tr\<rparr>;
               st = st\<lparr>currentTrialStart := Some (TaskCore_now e (core st)), responded := False,
                       display := Stimulus (JStr (lit (arrows tr)))\<rparr>;
               (i, st) = setTimeout CbTrialTimeout RESPONSE_WINDOW_MS st
           in st\<lparr>trialTimer := Some i\<rparr>)"

text \<open>
  The function given to \<open>setTimeout\<close> with \<open>RESPONSE_WINDOW_MS\<close>. It is scheduled
  only after \<open>currentTrial\<close> has been assigned. Were \<open>currentTrial\<close> still \<open>null\<close>,
  reading \<open>currentTrial.arrows\<close> for an unanswered trial would throw and end the handler
  before the next timeout is set.
\<close>

definition trialTimeout :: "flanker_state \<Rightarrow> flanker_state" where
  "trialTimeout st =
     (let st = st\<lparr>display := Blank\<rparr> in
      case currentTrial st of
        None \<Rightarrow> (if responded st then
                   (case setTimeout CbShowNextTrial flanker_ISI_MS st of (i, st) \<Rightarrow> st\<lparr>trialTimer := Some i\<rparr>)
                 else st)
      | Some tr \<Rightarrow>
          let st = (if \<not> responded st
                    then st\<lparr>trials := trials st @
                           [[(''arrows'', JStr (lit (arrows tr))),
                             (''direction'', JStr (lit (direction tr))),
                             (''is_congruent'', JBool (is_congruent tr)),
                             (''responded'', JBool False),
                             (''response'', JNull),
                             (''correct'', JBool False),
                             (''rt_ms'', JNull)]]\<rparr>
                    else st);
              (i, st) = setTimeout CbShowNextTrial flanker_ISI_MS st
          in st\<lparr>trialTimer := Some i\<rparr>)"

definition handleResponse :: "string \<Rightarrow> env \<Rightarrow> flanker_state \<Rightarrow> flanker_state" where
  "handleResponse dir e st =
     (case currentTrial st of
        None \<Rightarrow> st
      | Some tr \<Rightarrow>
          if \<not> isRunning st \<or> isPaused st \<or> isStopped st \<or> responded st then st
          else let st = st\<lparr>responded := True\<rparr>;
                   rtMs = js_round (since_trial_start e st)
               in st\<lparr>trials := trials st @
                      [[(''arrows'', JStr (lit (arrows tr))),
                        (''direction'', JStr (lit (direction tr))),
                        (''is_congruent'', JBool (is_congruent tr)),
                        (''responded'', JBool True),
                        (''response'', JStr (lit dir)),
                        (''correct'', JBool (dir = direction tr)),
                        (''rt_ms'', JNum (real_of_int rtMs))]]\<rparr>)"

definition keyHandler :: "jsstring \<Rightarrow> env \<Rightarrow> flanker_state \<Rightarrow> flanker_state" where
  "keyHandler k e st =
     (let st = (if k = lit ''ArrowLeft'' \<or> k = lit ''z'' \<or> k = lit ''Z''
                then handleResponse ''left'' e st else st)
      in if k = lit ''ArrowRight'' \<or> k = lit ''/'' then handleResponse ''right'' e st else st)"

definition flanker_endTask :: "env \<Rightarrow> flanker_state \<Rightarrow> flanker_state" where
  "flanker_endTask e st =
     (if isStopped st then st
      else let st = st\<lparr>isStopped := True, isRunning := False\<rparr>;
               st = clearTimeout (trialTimer st) st;
               st = clearTimeout (taskEndTimer st) st;
               st = st\<lparr>listening := False, display := Submitting\<rparr>
           in submit_task ''flanker'' e st)"

definition flanker_pause :: "flanker_state \<Rightarrow> flanker_state" where
  "flanker_pause st =
     (let st = st\<lparr>isPaused := True\<rparr>;
          st = clearTimeout (trialTimer st) st
      in st\<lparr>display := Blank\<rparr>)"

definition flanker_resume :: "env \<Rightarrow> flanker_state \<Rightarrow> flanker_state" where
  "flanker_resume e st = flanker_showNextTrial e (st\<lparr>isPaused := False\<rparr>)"

definition flanker_abort :: "string \<Rightarrow> flanker_state \<Rightarrow> flanker_state" where
  "flanker_abort reason st =
     (let st = st\<lparr>isStopped := True, isRunning := False\<rparr>;
          st = clearTimeout (trialTimer st) st;
          st = clearTimeout (taskEndTimer st) st
      in st\<lparr>listening := False\<rparr>)"

definition flanker_init :: "env \<Rightarrow> config \<Rightarrow> task_core \<Rightarrow> flanker_state" where
  "flanker_init e cfg c =
     (let st = \<lparr>core = c, startedAt = wallClock e,
                nextTimerId = 1, timeouts = [],
                gen = new_generator (makeRng_flanker (seed_or_empty cfg @ lit ''_flanker'')),
                durationMs = duration_or cfg 75000,
                trials = [], isRunning = False, isPaused = False, isStopped = False,
                taskEndTimer = None, display = Blank, listening = True,
                trialTimer = None, currentTrialStart = None, responded = False,
                currentTrial = None\<rparr>;
          st = st\<lparr>isRunning := True\<rparr>;
          st = flanker_showNextTrial e st;
          (i, st) = setTimeout CbEndTask (durationMs st) st;
          st = st\<lparr>taskEndTimer := Some i\<rparr>
      in st\<lparr>core := registerTask FlankerTask (core st)\<rparr>)"

definition flanker_fire :: "env \<Rightarrow> nat \<Rightarrow> flanker_state \<Rightarrow> flanker_state" where
  "flanker_fire e i st =
     (case map_of (timeouts st) i of
        None \<Rightarrow> st
      | Some (delay, cb) \<Rightarrow>
          let st = st\<lparr>timeouts := filter (\<lambda>t. fst t \<noteq> i) (timeouts st)\<rparr>
          in case cb of
               CbTrialTimeout \<Rightarrow> trialTimeout st
             | CbShowNextTrial \<Rightarrow> flanker_showNextTrial e st
             | CbEndTask \<Rightarrow> flanker_endTask e st
             | _ \<Rightarrow> st)"

text \<open>The two buttons keep their listeners for the life of the page; the key handler does not.\<close>

definition flanker_step :: "env \<Rightarrow> event \<Rightarrow> flanker_state \<Rightarrow> flanker_state" where
  "flanker_step e ev st =
     (case ev of
        Click \<Rightarrow> st
      | Keydown k \<Rightarrow> if listening st then keyHandler k e st else st
      | ClickLeft \<Rightarrow> handleResponse ''left'' e st
      | ClickRight \<Rightarrow> handleResponse ''right'' e st
      | ClickOption k \<Rightarrow> st
      | ClickRating k v \<Rightarrow> st
      | ClickSubmit \<Rightarrow> st
      | Fire i \<Rightarrow> flanker_fire e i st
      | Frame i \<Rightarrow> st
      | _ \<Rightarrow> lifecycle flanker_pause flanker_resume flanker_abort e ev st)"

section \<open>digit_symbol.js\<close>

text \<open>The nine symbols, each one UTF-16 code unit.\<close>

definition SYMBOL_POOL :: "jsstring list" where
  "SYMBOL_POOL = [[0x25CF], [0x25B2], [0x25BC], [0x25C6], [0x2605], [0x25A0], [0x2764], [0x2660], [0x2663]]"

text \<open>
  \<open>shuffle(arr, rng)\<close>: the loop runs \<open>i\<close> from the last index down to 1 and swaps
  \<open>a[i]\<close> with \<open>a[j]\<close>, \<open>j = Math.floor(rng() * (i + 1))\<close>, which is at most \<open>i\<close>.
\<close>

fun shuffle_loop :: "nat \<Rightarrow> 'a list \<Rightarrow> generator \<Rightarrow> 'a list \<times> generator" where
  "shuffle_loop 0 a g = (a, g)"
| "shuffle_loop (Suc i) a g =
     (case draw g of (r, g) \<Rightarrow>
        let j = nat \<lfloor>r * real (Suc i + 1)\<rfloor>
        in shuffle_loop i (a[Suc i := a ! j, j := a ! Suc i]) g)"

definition shuffle :: "'a list \<Rightarrow> generator \<Rightarrow> 'a list \<times> generator" where
  "shuffle arr g = shuffle_loop (length arr - 1) arr g"

text \<open>
  \<open>symbolMap\<close> lists the symbol of digit 1 to 9. \<open>options\<close> are the digits of the
  buttons on the page; their click handlers share the \<open>targetDigit\<close>,
  \<open>targetSymbol\<close> and \<open>trialStartMs\<close> of the call of \<open>showNextTrial\<close> that made them.
\<close>

record ds_state = runner +
  symbolMap :: "jsstring list"
  options :: "nat list"
  targetDigit :: nat
  targetSymbol :: jsstring
  trialStartMs :: real

text \<open>\<open>Object.keys(symbolMap).map(Number)\<close>: the digits 1 to 9 in ascending order.\<close>

definition symbolMap_keys :: "nat list" where
  "symbolMap_keys = [1, 2, 3, 4, 5, 6, 7, 8, 9]"

definition symbol_of :: "ds_state \<Rightarrow> nat \<Rightarrow> jsstring" where
  "symbol_of st d = symbolMap st ! (d - 1)"

definition ds_showNextTrial :: "env \<Rightarrow> ds_state \<Rightarrow> ds_state" where
  "ds_showNextTrial e st =
     (if \<not> isRunning st \<or> isPaused st \<or> isStopped st then st
      else case draw (gen st) of (r, g) \<Rightarrow>
           let target = nat \<lfloor>r * 9\<rfloor> + 1;
               distractorDigits = filter (\<lambda>d. d \<noteq> target) symbolMap_keys;
               (shuffled, g) = shuffle distractorDigits g;
               (opts, g) = shuffle (target # take 3 shuffled) g
           in st\<lparr>gen := g, display := Stimulus (JNum (real target)),
                  options := opts, targetDigit := target, targetSymbol := symbol_of st target,
                  trialStartMs := TaskCore_now e (core st)\<rparr>)"

text \<open>The click handler of the button at position \<open>k\<close>.\<close>

definition optionClick :: "nat \<Rightarrow> env \<Rightarrow> ds_state \<Rightarrow> ds_state" where
  "optionClick k e st =
     (if k \<ge> length (options st) then st
      else if \<not> isRunning st \<or> isPaused st \<or> isStopped st then st
      else let optDigit = options st ! k;
               rtMs = js_round (TaskCore_now e (core st) - trialStartMs st);
               correct = (optDigit = targetDigit st);
               st = st\<lparr>trials := trials st @
                      [[(''digit'', JNum (real (targetDigit st))),
                        (''target_symbol'', JStr (targetSymbol st)),
                        (''selected_symbol'', JStr (symbol_of st optDigit)),
                        (''stimulus_at_ms'', JNum (real_of_int (js_round (trialStartMs st)))),
                        (''response_at_ms'', JNum (real_of_int (js_round (TaskCore_now e (core st))))),
                        (''rt_ms'', JNum (real_of_int rtMs)),
                        (''correct'', JBool correct),
                        (''responded'', JBool True)]]\<rparr>
           in ds_showNextTrial e st)"

definition ds_endTask :: "env \<Rightarrow> ds_state \<Rightarrow> ds_state" where
  "ds_endTask e st =
     (if isStopped st then st
      else let st = st\<lparr>isStopped := True, isRunning := False\<rparr>;
               st = clearTimeout (taskEndTimer st) st;
               st = st\<lparr>display := Submitting, options := []\<rparr>
           in submit_task ''digit_symbol'' e st)"

definition ds_pause :: "ds_state \<Rightarrow> ds_state" where
  "ds_pause st = st\<lparr>isPaused := True\<rparr>"

definition ds_resume :: "env \<Rightarrow> ds_state \<Rightarrow> ds_state" where
  "ds_resume e st = ds_showNextTrial e (st\<lparr>isPaused := False\<rparr>)"

definition ds_abort :: "string \<Rightarrow> ds_state \<Rightarrow> ds_state" where
  "ds_abort reason st = clearTimeout (taskEndTimer st) (st\<lparr>isStopped := True, isRunning := False\<rparr>)"

definition ds_init :: "env \<Rightarrow> config \<Rightarrow> task_core \<Rightarrow> ds_state" where
  "ds_init e cfg c =
     (case shuffle SYMBOL_POOL (new_generator (makeRng_ds (seed_or_empty cfg @ lit ''_ds''))) of
        (shuffledSymbols, g) \<Rightarrow>
          let st = \<lparr>core = c, startedAt = wallClock e,
                    nextTimerId = 1, timeouts = [], gen = g,
                    durationMs = duration_or cfg 75000,
                    trials = [], isRunning = False, isPaused = False, isStopped = False,
                    taskEndTimer = None, display = Blank, listening = False,
                    symbolMap = shuffledSymbols, options = [], targetDigit = 0,
                    targetSymbol = [], trialStartMs = 0\<rparr>;
              st = st\<lparr>isRunning := True\<rparr>;
              st = ds_showNextTrial e st;
              (i, st) = setTimeout CbEndTask (durationMs st) st;
              st = st\<lparr>taskEndTimer := Some i\<rparr>
          in st\<lparr>core := registerTask DigitSymbolTask (core st)\<rparr>)"

definition ds_fire :: "env \<Rightarrow> nat \<Rightarrow> ds_state \<Rightarrow> ds_state" where
  "ds_fire e i st =
     (case map_of (timeouts st) i of
        None \<Rightarrow> st
      | Some (delay, cb) \<Rightarrow>
          let st = st\<lparr>timeouts := filter (\<lambda>t. fst t \<noteq> i) (timeouts st)\<rparr>
          in case cb of CbEndTask \<Rightarrow> ds_endTask e st | _ \<Rightarrow> st)"

definition ds_step :: "env \<Rightarrow> event \<Rightarrow> ds_state \<Rightarrow> ds_state" where
  "ds_step e ev st =
     (case ev of
        Click \<Rightarrow> st
      | Keydown k \<Rightarrow> st
      | ClickLeft \<Rightarrow> st
      | ClickRight \<Rightarrow> st
      | ClickOption k \<Rightarrow> optionClick k e st
      | ClickRating k v \<Rightarrow> st
      | ClickSubmit \<Rightarrow> st
      | Fire i \<Rightarrow> ds_fire e i st
      | Frame i \<Rightarrow> st
      | _ \<Rightarrow> lifecycle ds_pause ds_resume ds_abort e ev st)"

section \<open>mood.js\<close>

definition SCALES :: "string list" where
  "SCALES = [''valence'', ''arousal'', ''stress'', ''sharpness'']"

record mood_state = page +
  ratings :: jsobject
  submitDisabled :: bool
  alerts :: "string list"

text \<open>\<open>new Date(startedAt).getTime()\<close> of a string that \<open>toISOString\<close> made.\<close>

definition getTime :: "jsval \<Rightarrow> real" where
  "getTime v = (case v of JIso n \<Rightarrow> real n | _ \<Rightarrow> 0)"

definition mood_payload :: "env \<Rightarrow> mood_state \<Rightarrow> jsobject" where
  "mood_payload e st =
     [(''task_type'', JStr (lit ''mood'')),
      (''task_version'', JStr (lit ''1.0'')),
      (''started_at'', startedAt st),
      (''ended_at'', wallClock e),
      (''duration_ms'', JNum (real (wallNow e) - getTime (startedAt st))),
      (''input_modality'', JStr (lit ''touch'')),
      (''trials'', JArr [JObj (assign [] (ratings st))]),
      (''summary'', JObj (assign [] (ratings st)))]"

text \<open>The click handler of a rating button, with \<open>updateSubmit\<close>.\<close>

definition rate :: "string \<Rightarrow> nat \<Rightarrow> mood_state \<Rightarrow> mood_state" where
  "rate k v st =
     (let st = st\<lparr>ratings := set_prop k (JNum (real v)) (ratings st)\<rparr>
      in st\<lparr>submitDisabled := \<not> list_all (\<lambda>s. has_key s (ratings st)) SCALES\<rparr>)"

text \<open>The click handler of the submit button.\<close>

definition submitClick :: "env \<Rightarrow> mood_state \<Rightarrow> mood_state" where
  "submitClick e st =
     (if submitDisabled st then st
      else let st = st\<lparr>submitDisabled := True\<rparr> in
           case submit e (mood_payload e st) (core st) of
             (Rejected msg, c) \<Rightarrow>
               st\<lparr>core := c, submitDisabled := False, alerts := alerts st @ [''Error: '' @ msg]\<rparr>
           | (Fetching, c) \<Rightarrow> st\<lparr>core := c\<rparr>)"

definition mood_init :: "env \<Rightarrow> config \<Rightarrow> task_core \<Rightarrow> mood_state" where
  "mood_init e cfg c =
     \<lparr>core = registerTask MoodTask c, startedAt = wallClock e,
      ratings = [], submitDisabled = True, alerts = []\<rparr>"

definition mood_step :: "env \<Rightarrow> event \<Rightarrow> mood_state \<Rightarrow> mood_state" where
  "mood_step e ev st =
     (case ev of
        Click \<Rightarrow> st
      | Keydown k \<Rightarrow> st
      | ClickLeft \<Rightarrow> st
      | ClickRight \<Rightarrow> st
      | ClickOption k \<Rightarrow> st
      | ClickRating k v \<Rightarrow> rate k v st
      | ClickSubmit \<Rightarrow> submitClick e st
      | Fire i \<Rightarrow> st
      | Frame i \<Rightarrow> st
      | _ \<Rightarrow> lifecycle (\<lambda>st. st) (\<lambda>e st. st) (\<lambda>reason st. st) e ev st)"

section \<open>Example page loads\<close>

text \<open>
  Concrete inputs for the examples below: the browser's readings at performance time
  \<open>t\<close>, a configuration with the seed \<open>abc123\<close> and the default duration, and pages
  on which \<open>TaskCore.init\<close> and then the task's \<open>init\<close> ran at performance time 0.
\<close>

definition env_at :: "real \<Rightarrow> env" where
  "env_at t = \<lparr>perfNow = t, wallNow = 0, onLine = True, timezoneOffset = 0, deviceMeta = []\<rparr>"

definition example_config :: config where
  "example_config = \<lparr>config_seed = Some (lit ''abc123''), config_durationMs = None\<rparr>"

definition example_core :: task_core where
  "example_core = TaskCore_init (env_at 0) (JStr (lit ''session-1'')) (JStr (lit ''token''))"

definition example_pvt :: pvt_state where
  "example_pvt = pvt_init (env_at 0) example_config example_core"

text \<open>
  The stimulus of the example PVT page appears: the first ISI timeout (identifier 1),
  set with a delay of 7558.74 ms for this seed, fires at performance time 7559.
\<close>

definition example_pvt_onset :: pvt_state where
  "example_pvt_onset = pvt_step (env_at 7559) (Fire 1) example_pvt"

text \<open>The example PVT page goes to the background after one second, and returns after six.\<close>

definition example_pvt_paused :: pvt_state where
  "example_pvt_paused = pvt_step (env_at 1000) VisibilityHidden example_pvt"

definition example_pvt_resumed :: pvt_state where
  "example_pvt_resumed = pvt_step (env_at 6000) VisibilityVisible example_pvt_paused"


definition example_sart :: sart_state where
  "example_sart = sart_init (env_at 0) example_config example_core"

definition example_flanker :: flanker_state where
  "example_flanker = flanker_init (env_at 0) example_config example_core"

definition example_ds :: ds_state where
  "example_ds = ds_init (env_at 0) example_config example_core"

definition example_mood :: mood_state where
  "example_mood = mood_init (env_at 0) example_config example_core"

text \<open>
  A short SART page with the seed \<open>seed1\<close>, whose first digits are 3 and 2. The
  participant taps on the first digit after 400 ms.
\<close>

definition example_sart_config :: config where
  "example_sart_config = \<lparr>config_seed = Some (lit ''seed1''), config_durationMs = Some 2300\<rparr>"

definition example_sart_events :: "(env \<times> event) list" where
  "example_sart_events = [(env_at 400, Click)]"

text \<open>Two runs of the example PVT page: one without input, one with an early tap.\<close>

definition example_tap :: "(env \<times> event) list" where
  "example_tap = [(env_at 500, Click)]"

text \<open>A session seed of 32 hexadecimal digits.\<close>

definition colliding_seed :: jsstring where
  "colliding_seed = lit ''4283fefc63f0cd0e873a00002fc892d0''"

text \<open>
  The in-task clock in the words of the specification: the time since \<open>init\<close> less
  the time spent paused. It is not part of the source and serves for comparison only.
\<close>

definition elapsed_excluding_pauses :: "real \<Rightarrow> real \<Rightarrow> real \<Rightarrow> real" where
  "elapsed_excluding_pauses initTime pausedFor t = t - initTime - pausedFor"

section \<open>Properties stated below\<close>

text \<open>
  A generator that was created with state \<open>h0\<close> and has made \<open>k\<close> draws since: the
  draws are the first \<open>k\<close> values of the sequence of \<open>h0\<close>, and its state has
  advanced \<open>k\<close> times.
\<close>

definition gen_from :: "int \<Rightarrow> generator \<Rightarrow> bool" where
  "gen_from h0 g =
     (drawn g = rng_draws (length (drawn g)) h0 \<and>
      gen_h g = h0 + int (length (drawn g)) * 0x6d2b79f5)"

text \<open>
  The scoring of one SART trial record: after a response, a commission error exactly
  when the digit is the no-go digit 3; without a response, an omission error exactly
  when the digit is not 3; never both errors.
\<close>

definition sart_trial_classified :: "jsobject \<Rightarrow> bool" where
  "sart_trial_classified t =
     (case map_of t ''responded'' of
        Some (JBool r) \<Rightarrow>
          (if r then (map_of t ''is_commission'' = Some (JBool True)) = (map_of t ''digit'' = Some (JNum 3))
           else (map_of t ''is_omission'' = Some (JBool True)) = (map_of t ''digit'' \<noteq> Some (JNum 3))) \<and>
          \<not> (map_of t ''is_commission'' = Some (JBool True) \<and> map_of t ''is_omission'' = Some (JBool True))
      | _ \<Rightarrow> False)"

section \<open>The generator\<close>

lemma rng_range: "0 \<le> fst (rng hv) \<and> fst (rng hv) < 1"
proof -
  define x where "x = real (unat (mulberry (hv + 0x6d2b79f5)))"
  have "unat (mulberry (hv + 0x6d2b79f5)) < 2 ^ LENGTH(32)"
    by (rule unsigned_less)
  then have "unat (mulberry (hv + 0x6d2b79f5)) < 4294967296"
    by simp
  then have "real (unat (mulberry (hv + 0x6d2b79f5))) < real 4294967296"
    by (simp only: of_nat_less_iff)
  then have "x < 4294967296"
    unfolding x_def by (simp only: of_nat_numeral)
  moreover have "0 \<le> x"
    unfolding x_def by (rule of_nat_0_le_iff)
  moreover have "fst (rng hv) = x / 4294967296"
    by (simp add: rng_def Let_def x_def)
  ultimately show ?thesis
    by simp
qed

lemma rng_state: "snd (rng hv) = hv + 0x6d2b79f5"
  by (simp add: rng_def Let_def)

lemma rng_draws_length [simp]: "length (rng_draws n hv) = n"
  by (induction n arbitrary: hv) (simp_all add: split_def)

lemma rng_draws_snoc:
  "rng_draws (Suc n) hv = rng_draws n hv @ [fst (rng (hv + int n * 0x6d2b79f5))]"
proof (induction n arbitrary: hv)
  case 0
  then show ?case by (simp add: split_def)
next
  case (Suc n)
  have "rng_draws (Suc (Suc n)) hv = fst (rng hv) # rng_draws (Suc n) (hv + 0x6d2b79f5)"
    by (simp add: split_def rng_state)
  also have "\<dots> = fst (rng hv) #
      (rng_draws n (hv + 0x6d2b79f5) @ [fst (rng (hv + 0x6d2b79f5 + int n * 0x6d2b79f5))])"
    by (simp only: Suc.IH)
  also have "\<dots> = rng_draws (Suc n) hv @ [fst (rng (hv + int (Suc n) * 0x6d2b79f5))]"
    by (simp add: split_def rng_state algebra_simps)
  finally show ?case .
qed

text \<open>
  C9. For every session seed, two distinct task identities give sequences that are not
  identical draw for draw. The code does not achieve this: for the seed
  \<open>4283fefc63f0cd0e873a00002fc892d0\<close> the generator of pvt.js (salt \<open>_pvt\<close>) and the
  generator of sart.js (salt \<open>_sart\<close>) start from the same 32-bit state, so every
  draw of the one equals the same draw of the other.
\<close>

theorem pvt_sart_identical_sequences:
  "makeRng_pvt (colliding_seed @ lit ''_pvt'') = makeRng_sart (colliding_seed @ lit ''_sart'') \<and>
   rng_draws n (makeRng_pvt (colliding_seed @ lit ''_pvt'')) =
   rng_draws n (makeRng_sart (colliding_seed @ lit ''_sart''))"
proof -
  have "makeRng_pvt (colliding_seed @ lit ''_pvt'') = makeRng_sart (colliding_seed @ lit ''_sart'')"
    by (simp add: makeRng_pvt_def makeRng_sart_def colliding_seed_def lit_def)
  then show ?thesis by simp
qed

section \<open>Submission\<close>

lemma first_missing_task_payload:
  "first_missing REQUIRED (task_payload ty endedAt st) = Some ''session_id''"
  by (simp add: REQUIRED_def has_key_def task_payload_def)

lemma first_missing_mood_payload:
  "first_missing REQUIRED (mood_payload e st) = Some ''session_id''"
  by (simp add: REQUIRED_def has_key_def mood_payload_def)

lemma submit_missing:
  "first_missing REQUIRED payload = Some field \<Longrightarrow>
   submit e payload c =
     (Rejected (''Missing required field: '' @ field), c\<lparr>submitLog := submitLog c @ [payload]\<rparr>)"
  by (simp add: submit_def)

lemma submit_log [simp]: "submitLog (snd (submit e payload c)) = submitLog c @ [payload]"
  by (simp add: submit_def Let_def split: option.splits)

lemma submit_offline:
  "\<not> onLine e \<Longrightarrow> fetches (snd (submit e payload c)) = fetches c \<and>
     (\<exists>msg. fst (submit e payload c) = Rejected msg)"
  by (simp add: submit_def Let_def split: option.splits)

lemma submit_task_eq [simp]:
  "submit_task ty e st =
     st\<lparr>core := (core st)\<lparr>submitLog := submitLog (core st) @ [task_payload ty (wallClock e) st]\<rparr>,
        display := ErrorText ''Error: Missing required field: session_id''\<rparr>"
  by (simp add: submit_task_def submit_missing [OF first_missing_task_payload])

section \<open>pvt.js: what each function leaves unchanged\<close>

lemmas runner_ops = setTimeout_def clearTimeout_def rng_call_def
lemmas pvt_ops = requestAnimationFrame_def cancelAnimationFrame_def randomISI_def clearTimers_def

lemma startISI_frame [simp]:
  "core (startISI st) = core st"
  "trials (startISI st) = trials st"
  "isStopped (startISI st) = isStopped st"
  "isRunning (startISI st) = isRunning st"
  "isPaused (startISI st) = isPaused st"
  "taskEndTimer (startISI st) = taskEndTimer st"
  "frames (startISI st) = frames st"
  "listening (startISI st) = listening st"
  by (simp_all add: startISI_def runner_ops pvt_ops Let_def split_def)

lemma showStimulus_frame [simp]:
  "core (showStimulus e st) = core st"
  "trials (showStimulus e st) = trials st"
  "isStopped (showStimulus e st) = isStopped st"
  "isRunning (showStimulus e st) = isRunning st"
  "isPaused (showStimulus e st) = isPaused st"
  "taskEndTimer (showStimulus e st) = taskEndTimer st"
  "gen (showStimulus e st) = gen st"
  "listening (showStimulus e st) = listening st"
  by (simp_all add: showStimulus_def runner_ops pvt_ops Let_def split_def)

lemma animate_frame [simp]:
  "core (animate e st) = core st"
  "trials (animate e st) = trials st"
  "isStopped (animate e st) = isStopped st"
  "isRunning (animate e st) = isRunning st"
  "isPaused (animate e st) = isPaused st"
  "taskEndTimer (animate e st) = taskEndTimer st"
  "gen (animate e st) = gen st"
  "timeouts (animate e st) = timeouts st"
  "listening (animate e st) = listening st"
  by (simp_all add: animate_def runner_ops pvt_ops Let_def split_def split: option.splits)

lemma recordResponse_frame [simp]:
  "core (recordResponse b e st) = core st"
  "isStopped (recordResponse b e st) = isStopped st"
  "isRunning (recordResponse b e st) = isRunning st"
  "isPaused (recordResponse b e st) = isPaused st"
  "taskEndTimer (recordResponse b e st) = taskEndTimer st"
  "listening (recordResponse b e st) = listening st"
  by (simp_all add: recordResponse_def runner_ops pvt_ops Let_def split: option.splits)

lemma recordResponse_visible:
  "stimulusStartMs st = Some s \<Longrightarrow>
   trials (recordResponse isUserTap e st) = trials st @
     [[(''stimulus_at_ms'', JNum (real_of_int (js_round s))),
       (''response_at_ms'', JNum (real_of_int (js_round (TaskCore_now e (core st))))),
       (''rt_ms'', if isUserTap then JNum (real_of_int (js_round (TaskCore_now e (core st) - s)))
                   else JNull),
       (''is_anticipation'', JBool (js_round (TaskCore_now e (core st) - s) < 100)),
       (''is_lapse'', JBool (js_round (TaskCore_now e (core st) - s) > 500 \<or> \<not> isUserTap)),
       (''responded'', JBool isUserTap)]]"
  by (simp add: recordResponse_def runner_ops pvt_ops Let_def ANTICIPATION_THRESHOLD_def
      LAPSE_THRESHOLD_def split: option.splits)

lemma noResponse_frame [simp]:
  "core (noResponse e st) = core st"
  "isStopped (noResponse e st) = isStopped st"
  "isRunning (noResponse e st) = isRunning st"
  "isPaused (noResponse e st) = isPaused st"
  "taskEndTimer (noResponse e st) = taskEndTimer st"
  by (simp_all add: noResponse_def)

lemma pvt_handleInteraction_frame [simp]:
  "core (pvt_handleInteraction e st) = core st"
  "isStopped (pvt_handleInteraction e st) = isStopped st"
  "isRunning (pvt_handleInteraction e st) = isRunning st"
  "isPaused (pvt_handleInteraction e st) = isPaused st"
  "taskEndTimer (pvt_handleInteraction e st) = taskEndTimer st"
  by (simp_all add: pvt_handleInteraction_def)

lemma pvt_endTask_stopped [simp]: "isStopped st \<Longrightarrow> pvt_endTask e st = st"
  by (simp add: pvt_endTask_def)

lemma pvt_endTask_frame [simp]:
  "isStopped (pvt_endTask e st)"
  "trials (pvt_endTask e st) = trials st"
  "gen (pvt_endTask e st) = gen st"
  "fetches (core (pvt_endTask e st)) = fetches (core st)"
  "initPerfTime (core (pvt_endTask e st)) = initPerfTime (core st)"
  "submitLog (core (pvt_endTask e st)) =
     (if isStopped st then submitLog (core st)
      else submitLog (core st) @
        [task_payload ''pvt'' (wallClock e)
           (st\<lparr>isStopped := True, isRunning := False, listening := False, display := Submitting\<rparr>)])"
  by (simp_all add: pvt_endTask_def Let_def runner_ops pvt_ops task_payload_def split: option.splits)

lemma pvt_pause_frame [simp]:
  "core (pvt_pause st) = core st"
  "trials (pvt_pause st) = trials st"
  "isStopped (pvt_pause st) = isStopped st"
  "isRunning (pvt_pause st) = isRunning st"
  "isPaused (pvt_pause st)"
  "taskEndTimer (pvt_pause st) = taskEndTimer st"
  "gen (pvt_pause st) = gen st"
  "listening (pvt_pause st) = listening st"
  by (simp_all add: pvt_pause_def runner_ops pvt_ops Let_def split: option.splits)

lemma pvt_resume_frame [simp]:
  "core (pvt_resume e st) = core st"
  "trials (pvt_resume e st) = trials st"
  "isStopped (pvt_resume e st) = isStopped st"
  "isRunning (pvt_resume e st) = isRunning st"
  "\<not> isPaused (pvt_resume e st)"
  "taskEndTimer (pvt_resume e st) = taskEndTimer st"
  "listening (pvt_resume e st) = listening st"
  by (simp_all add: pvt_resume_def)

lemma pvt_abort_frame [simp]:
  "core (pvt_abort r st) = core st"
  "trials (pvt_abort r st) = trials st"
  "isStopped (pvt_abort r st)"
  "\<not> isRunning (pvt_abort r st)"
  "isPaused (pvt_abort r st) = isPaused st"
  "taskEndTimer (pvt_abort r st) = taskEndTimer st"
  "gen (pvt_abort r st) = gen st"
  "listening (pvt_abort r st) = listening st"
  by (simp_all add: pvt_abort_def runner_ops pvt_ops Let_def split: option.splits)

lemma pvt_step_initPerfTime: "initPerfTime (core (pvt_step e ev st)) = initPerfTime (core st)"
  by (cases ev) (simp_all add: pvt_step_def pvt_fire_def lifecycle_def Let_def logEvent_def
      split: option.splits callback.splits)

lemma pvt_step_fetches: "fetches (core (pvt_step e ev st)) = fetches (core st)"
  by (cases ev) (simp_all add: pvt_step_def pvt_fire_def lifecycle_def Let_def logEvent_def
      split: option.splits callback.splits)




section \<open>sart.js: what each function leaves unchanged\<close>

lemma sart_endTask_stopped [simp]: "isStopped st \<Longrightarrow> sart_endTask e st = st"
  by (simp add: sart_endTask_def)

lemma sart_endTask_frame [simp]:
  "isStopped (sart_endTask e st)"
  "trials (sart_endTask e st) = trials st"
  "gen (sart_endTask e st) = gen st"
  "sequence (sart_endTask e st) = sequence st"
  "fetches (core (sart_endTask e st)) = fetches (core st)"
  "initPerfTime (core (sart_endTask e st)) = initPerfTime (core st)"
  "submitLog (core (sart_endTask e st)) =
     (if isStopped st then submitLog (core st)
      else submitLog (core st) @
        [task_payload ''sart'' (wallClock e)
           (st\<lparr>isStopped := True, isRunning := False, listening := False, display := Submitting\<rparr>)])"
  by (simp_all add: sart_endTask_def Let_def runner_ops task_payload_def split: option.splits)

lemma sart_showNextTrial_frame [simp]:
  "isStopped st \<Longrightarrow> isStopped (sart_showNextTrial e st)"
  "trials (sart_showNextTrial e st) = trials st"
  "gen (sart_showNextTrial e st) = gen st"
  "sequence (sart_showNextTrial e st) = sequence st"
  "fetches (core (sart_showNextTrial e st)) = fetches (core st)"
  "initPerfTime (core (sart_showNextTrial e st)) = initPerfTime (core st)"
  by (simp_all add: sart_showNextTrial_def Let_def runner_ops split_def)


lemma sart_showNextTrial_submitLog_stopped [simp]:
  "isStopped st \<Longrightarrow> submitLog (core (sart_showNextTrial e st)) = submitLog (core st)"
  by (simp add: sart_showNextTrial_def Let_def runner_ops split_def)

lemma hideStimulus_frame [simp]:
  "core (hideStimulus st) = core st"
  "isStopped (hideStimulus st) = isStopped st"
  "trials (hideStimulus st) = trials st"
  "gen (hideStimulus st) = gen st"
  "sequence (hideStimulus st) = sequence st"
  by (simp_all add: hideStimulus_def Let_def runner_ops split_def)

lemma responseWindowEnd_frame [simp]:
  "isStopped st \<Longrightarrow> isStopped (responseWindowEnd e st)"
  "gen (responseWindowEnd e st) = gen st"
  "sequence (responseWindowEnd e st) = sequence st"
  "fetches (core (responseWindowEnd e st)) = fetches (core st)"
  "initPerfTime (core (responseWindowEnd e st)) = initPerfTime (core st)"
  "isStopped st \<Longrightarrow> submitLog (core (responseWindowEnd e st)) = submitLog (core st)"
  by (simp_all add: responseWindowEnd_def Let_def)


lemma sart_handleInteraction_frame [simp]:
  "core (sart_handleInteraction e st) = core st"
  "isStopped (sart_handleInteraction e st) = isStopped st"
  "gen (sart_handleInteraction e st) = gen st"
  "sequence (sart_handleInteraction e st) = sequence st"
  by (simp_all add: sart_handleInteraction_def Let_def)

lemma sart_pause_frame [simp]:
  "core (sart_pause st) = core st"
  "isStopped (sart_pause st) = isStopped st"
  "trials (sart_pause st) = trials st"
  "gen (sart_pause st) = gen st"
  "sequence (sart_pause st) = sequence st"
  "isPaused (sart_pause st)"
  by (simp_all add: sart_pause_def Let_def runner_ops split: option.splits)

lemma sart_resume_frame [simp]:
  "isStopped st \<Longrightarrow> isStopped (sart_resume e st)"
  "trials (sart_resume e st) = trials st"
  "gen (sart_resume e st) = gen st"
  "sequence (sart_resume e st) = sequence st"
  "fetches (core (sart_resume e st)) = fetches (core st)"
  "initPerfTime (core (sart_resume e st)) = initPerfTime (core st)"
  "isStopped st \<Longrightarrow> submitLog (core (sart_resume e st)) = submitLog (core st)"
  by (simp_all add: sart_resume_def)


lemma sart_abort_frame [simp]:
  "core (sart_abort r st) = core st"
  "isStopped (sart_abort r st)"
  "\<not> isRunning (sart_abort r st)"
  "trials (sart_abort r st) = trials st"
  "gen (sart_abort r st) = gen st"
  "sequence (sart_abort r st) = sequence st"
  by (simp_all add: sart_abort_def Let_def runner_ops split: option.splits)

lemma sart_step_initPerfTime: "initPerfTime (core (sart_step e ev st)) = initPerfTime (core st)"
  by (cases ev) (simp_all add: sart_step_def sart_fire_def lifecycle_def Let_def logEvent_def
      split: option.splits callback.splits)

lemma sart_step_fetches: "fetches (core (sart_step e ev st)) = fetches (core st)"
  by (cases ev) (simp_all add: sart_step_def sart_fire_def lifecycle_def Let_def logEvent_def
      split: option.splits callback.splits)



lemma sart_step_gen: "gen (sart_step e ev st) = gen st"
  by (cases ev) (simp_all add: sart_step_def sart_fire_def lifecycle_def Let_def logEvent_def
      split: option.splits callback.splits)

lemma sart_step_sequence: "sequence (sart_step e ev st) = sequence st"
  by (cases ev) (simp_all add: sart_step_def sart_fire_def lifecycle_def Let_def logEvent_def
      split: option.splits callback.splits)



section \<open>flanker.js: what each function leaves unchanged\<close>

lemma flanker_endTask_stopped [simp]: "isStopped st \<Longrightarrow> flanker_endTask e st = st"
  by (simp add: flanker_endTask_def)

lemma flanker_endTask_frame [simp]:
  "isStopped (flanker_endTask e st)"
  "trials (flanker_endTask e st) = trials st"
  "gen (flanker_endTask e st) = gen st"
  "fetches (core (flanker_endTask e st)) = fetches (core st)"
  "initPerfTime (core (flanker_endTask e st)) = initPerfTime (core st)"
  "submitLog (core (flanker_endTask e st)) =
     (if isStopped st then submitLog (core st)
      else submitLog (core st) @
        [task_payload ''flanker'' (wallClock e)
           (st\<lparr>isStopped := True, isRunning := False, listening := False, display := Submitting\<rparr>)])"
  by (simp_all add: flanker_endTask_def Let_def runner_ops task_payload_def split: option.splits)

lemma flanker_showNextTrial_frame [simp]:
  "core (flanker_showNextTrial e st) = core st"
  "isStopped (flanker_showNextTrial e st) = isStopped st"
  "trials (flanker_showNextTrial e st) = trials st"
  by (simp_all add: flanker_showNextTrial_def Let_def runner_ops split_def)

lemma trialTimeout_frame [simp]:
  "core (trialTimeout st) = core st"
  "isStopped (trialTimeout st) = isStopped st"
  "gen (trialTimeout st) = gen st"
  by (simp_all add: trialTimeout_def Let_def runner_ops split_def split: option.splits)

lemma handleResponse_frame [simp]:
  "core (handleResponse dir e st) = core st"
  "isStopped (handleResponse dir e st) = isStopped st"
  "gen (handleResponse dir e st) = gen st"
  by (simp_all add: handleResponse_def Let_def split: option.splits)

lemma keyHandler_frame [simp]:
  "core (keyHandler k e st) = core st"
  "isStopped (keyHandler k e st) = isStopped st"
  "gen (keyHandler k e st) = gen st"
  by (simp_all add: keyHandler_def Let_def)

lemma flanker_pause_frame [simp]:
  "core (flanker_pause st) = core st"
  "isStopped (flanker_pause st) = isStopped st"
  "trials (flanker_pause st) = trials st"
  "gen (flanker_pause st) = gen st"
  "isPaused (flanker_pause st)"
  by (simp_all add: flanker_pause_def Let_def runner_ops split: option.splits)

lemma flanker_resume_frame [simp]:
  "core (flanker_resume e st) = core st"
  "isStopped (flanker_resume e st) = isStopped st"
  "trials (flanker_resume e st) = trials st"
  by (simp_all add: flanker_resume_def)

lemma flanker_abort_frame [simp]:
  "core (flanker_abort r st) = core st"
  "isStopped (flanker_abort r st)"
  "\<not> isRunning (flanker_abort r st)"
  "trials (flanker_abort r st) = trials st"
  "gen (flanker_abort r st) = gen st"
  by (simp_all add: flanker_abort_def Let_def runner_ops split: option.splits)

lemma flanker_step_initPerfTime:
  "initPerfTime (core (flanker_step e ev st)) = initPerfTime (core st)"
  by (cases ev) (simp_all add: flanker_step_def flanker_fire_def lifecycle_def Let_def logEvent_def
      split: option.splits callback.splits)

lemma flanker_step_fetches: "fetches (core (flanker_step e ev st)) = fetches (core st)"
  by (cases ev) (simp_all add: flanker_step_def flanker_fire_def lifecycle_def Let_def logEvent_def
      split: option.splits callback.splits)




section \<open>digit_symbol.js: what each function leaves unchanged\<close>

lemma ds_endTask_stopped [simp]: "isStopped st \<Longrightarrow> ds_endTask e st = st"
  by (simp add: ds_endTask_def)

lemma ds_endTask_frame [simp]:
  "isStopped (ds_endTask e st)"
  "trials (ds_endTask e st) = trials st"
  "gen (ds_endTask e st) = gen st"
  "fetches (core (ds_endTask e st)) = fetches (core st)"
  "initPerfTime (core (ds_endTask e st)) = initPerfTime (core st)"
  "submitLog (core (ds_endTask e st)) =
     (if isStopped st then submitLog (core st)
      else submitLog (core st) @
        [task_payload ''digit_symbol'' (wallClock e)
           (st\<lparr>isStopped := True, isRunning := False, display := Submitting\<rparr>)])"
  by (simp_all add: ds_endTask_def Let_def runner_ops task_payload_def split: option.splits)

lemma ds_showNextTrial_frame [simp]:
  "core (ds_showNextTrial e st) = core st"
  "isStopped (ds_showNextTrial e st) = isStopped st"
  "trials (ds_showNextTrial e st) = trials st"
  by (simp_all add: ds_showNextTrial_def Let_def split_def)

lemma optionClick_frame [simp]:
  "core (optionClick k e st) = core st"
  "isStopped (optionClick k e st) = isStopped st"
  by (simp_all add: optionClick_def Let_def)

lemma ds_pause_frame [simp]:
  "core (ds_pause st) = core st"
  "isStopped (ds_pause st) = isStopped st"
  "trials (ds_pause st) = trials st"
  "gen (ds_pause st) = gen st"
  "timeouts (ds_pause st) = timeouts st"
  "isPaused (ds_pause st)"
  by (simp_all add: ds_pause_def)

lemma ds_resume_frame [simp]:
  "core (ds_resume e st) = core st"
  "isStopped (ds_resume e st) = isStopped st"
  "trials (ds_resume e st) = trials st"
  by (simp_all add: ds_resume_def)

lemma ds_abort_frame [simp]:
  "core (ds_abort r st) = core st"
  "isStopped (ds_abort r st)"
  "\<not> isRunning (ds_abort r st)"
  "trials (ds_abort r st) = trials st"
  "gen (ds_abort r st) = gen st"
  by (simp_all add: ds_abort_def Let_def runner_ops split: option.splits)

lemma ds_step_initPerfTime: "initPerfTime (core (ds_step e ev st)) = initPerfTime (core st)"
  by (cases ev) (simp_all add: ds_step_def ds_fire_def lifecycle_def Let_def logEvent_def
      split: option.splits callback.splits)

lemma ds_step_fetches: "fetches (core (ds_step e ev st)) = fetches (core st)"
  by (cases ev) (simp_all add: ds_step_def ds_fire_def lifecycle_def Let_def logEvent_def
      split: option.splits callback.splits)




section \<open>Runs\<close>

lemma run_invariant:
  assumes "P st" and "\<And>e ev s. P s \<Longrightarrow> P (step e ev s)"
  shows "P (run step evs st)"
  using assms(1)
proof (induction evs arbitrary: st)
  case Nil
  then show ?case by simp
next
  case (Cons x evs)
  obtain e ev where x: "x = (e, ev)" by (cases x)
  show ?case
    unfolding x run.simps by (rule Cons.IH) (rule assms(2) [OF Cons.prems])
qed

lemma run_preserves:
  assumes "\<And>e ev s. f (step e ev s) = f s"
  shows "f (run step evs st) = f st"
  by (rule run_invariant [where P = "\<lambda>s. f s = f st"]) (simp_all add: assms)



section \<open>The generator inside a run\<close>

lemma rng_draws_take: "take m (rng_draws n hv) = rng_draws (min m n) hv"
proof (induction n arbitrary: m hv)
  case 0
  then show ?case by simp
next
  case (Suc n)
  show ?case
  proof (cases m)
    case 0
    then show ?thesis by simp
  next
    case (Suc k)
    then show ?thesis by (simp add: split_def Suc.IH)
  qed
qed

lemma gen_from_new [simp]: "gen_from h0 (new_generator h0)"
  by (simp add: gen_from_def new_generator_def)

lemma gen_from_draw [simp]: "gen_from h0 g \<Longrightarrow> gen_from h0 (snd (draw g))"
proof -
  assume g: "gen_from h0 g"
  have "drawn (snd (draw g)) = drawn g @ [fst (rng (gen_h g))]"
    and "gen_h (snd (draw g)) = gen_h g + 0x6d2b79f5"
    by (simp_all add: draw_def split_def rng_state)
  with g show ?thesis
    by (simp add: gen_from_def rng_draws_snoc algebra_simps del: rng_draws.simps)
qed

lemma gen_from_common_prefix:
  assumes "gen_from h0 g1" and "gen_from h0 g2"
  shows "take (length (drawn g2)) (drawn g1) = take (length (drawn g1)) (drawn g2)"
proof -
  have "take (length (drawn g2)) (drawn g1) = rng_draws (min (length (drawn g2)) (length (drawn g1))) h0"
    using assms(1) by (metis gen_from_def rng_draws_take)
  moreover have "take (length (drawn g1)) (drawn g2) = rng_draws (min (length (drawn g1)) (length (drawn g2))) h0"
    using assms(2) by (metis gen_from_def rng_draws_take)
  ultimately show ?thesis by (simp add: min.commute)
qed

section \<open>The pages after \<open>init\<close>\<close>

lemma pvt_init_frame [simp]:
  "core (pvt_init e cfg c) = registerTask PvtTask c"
  "\<not> isStopped (pvt_init e cfg c)"
  "isRunning (pvt_init e cfg c)"
  "\<not> isPaused (pvt_init e cfg c)"
  "trials (pvt_init e cfg c) = []"
  "gen (pvt_init e cfg c) = snd (draw (new_generator (makeRng_pvt (seed_or_empty cfg @ lit ''_pvt''))))"
  by (simp_all add: pvt_init_def startISI_def runner_ops pvt_ops Let_def split_def)

lemma buildSequence_loop_gen:
  "gen_from h0 g \<Longrightarrow> gen_from h0 (snd (buildSequence_loop n g seq))"
  by (induction n arbitrary: g seq) (simp_all add: split_def)

lemma buildSequence_loop_length:
  "length (fst (buildSequence_loop n g seq)) = length seq + n"
  by (induction n arbitrary: g seq) (simp_all add: split_def)

lemma sart_init_frame [simp]:
  "initPerfTime (core (sart_init e cfg c)) = initPerfTime c"
  "fetches (core (sart_init e cfg c)) = fetches c"
  "trials (sart_init e cfg c) = []"
  "gen (sart_init e cfg c) =
     snd (buildSequence (new_generator (makeRng_sart (seed_or_empty cfg @ lit ''_sart'')))
            (duration_or cfg 75000))"
  "sequence (sart_init e cfg c) =
     fst (buildSequence (new_generator (makeRng_sart (seed_or_empty cfg @ lit ''_sart'')))
            (duration_or cfg 75000))"
  by (simp_all add: sart_init_def runner_ops Let_def split_def registerTask_def)


lemma buildTrial_gen: "gen_from h0 g \<Longrightarrow> gen_from h0 (snd (buildTrial g))"
  by (simp add: buildTrial_def split_def Let_def)

lemma flanker_init_frame [simp]:
  "core (flanker_init e cfg c) = registerTask FlankerTask c"
  "\<not> isStopped (flanker_init e cfg c)"
  "trials (flanker_init e cfg c) = []"
  "gen (flanker_init e cfg c) =
     snd (buildTrial (new_generator (makeRng_flanker (seed_or_empty cfg @ lit ''_flanker''))))"
  by (simp_all add: flanker_init_def flanker_showNextTrial_def runner_ops Let_def split_def)

lemma shuffle_loop_gen: "gen_from h0 g \<Longrightarrow> gen_from h0 (snd (shuffle_loop n a g))"
  by (induction n arbitrary: g a) (simp_all add: split_def Let_def)

lemma shuffle_gen: "gen_from h0 g \<Longrightarrow> gen_from h0 (snd (shuffle a g))"
  by (simp add: shuffle_def shuffle_loop_gen)

lemma ds_showNextTrial_gen:
  "gen_from h0 (gen st) \<Longrightarrow> gen_from h0 (gen (ds_showNextTrial e st))"
  by (simp add: ds_showNextTrial_def split_def Let_def shuffle_gen)

lemma ds_init_frame [simp]:
  "core (ds_init e cfg c) = registerTask DigitSymbolTask c"
  "\<not> isStopped (ds_init e cfg c)"
  "trials (ds_init e cfg c) = []"
  by (simp_all add: ds_init_def runner_ops Let_def split_def)

lemma ds_init_gen:
  "gen_from (makeRng_ds (seed_or_empty cfg @ lit ''_ds'')) (gen (ds_init e cfg c))"
  by (simp add: ds_init_def runner_ops Let_def split_def ds_showNextTrial_gen shuffle_gen)

section \<open>The generator inside a step\<close>

lemma startISI_gen: "gen_from h0 (gen st) \<Longrightarrow> gen_from h0 (gen (startISI st))"
  by (simp add: startISI_def runner_ops pvt_ops Let_def split_def)

lemma recordResponse_gen:
  "gen_from h0 (gen st) \<Longrightarrow> gen_from h0 (gen (recordResponse b e st))"
  by (simp add: recordResponse_def runner_ops pvt_ops Let_def startISI_gen split: option.splits)

lemma pvt_step_gen: "gen_from h0 (gen st) \<Longrightarrow> gen_from h0 (gen (pvt_step e ev st))"
  by (cases ev)
     (simp_all add: pvt_step_def pvt_fire_def lifecycle_def Let_def logEvent_def noResponse_def
        pvt_handleInteraction_def pvt_resume_def recordResponse_gen startISI_gen
        split: option.splits callback.splits)

lemma flanker_showNextTrial_gen:
  "gen_from h0 (gen st) \<Longrightarrow> gen_from h0 (gen (flanker_showNextTrial e st))"
  by (simp add: flanker_showNextTrial_def runner_ops split_def Let_def buildTrial_gen)

lemma flanker_step_gen: "gen_from h0 (gen st) \<Longrightarrow> gen_from h0 (gen (flanker_step e ev st))"
  by (cases ev)
     (simp_all add: flanker_step_def flanker_fire_def lifecycle_def Let_def logEvent_def
        flanker_resume_def flanker_showNextTrial_gen split: option.splits callback.splits)

lemma ds_step_gen: "gen_from h0 (gen st) \<Longrightarrow> gen_from h0 (gen (ds_step e ev st))"
  by (cases ev)
     (simp_all add: ds_step_def ds_fire_def lifecycle_def Let_def logEvent_def optionClick_def
        ds_resume_def ds_showNextTrial_gen split: option.splits callback.splits)

lemma pvt_run_gen:
  "gen_from (makeRng_pvt (seed_or_empty cfg @ lit ''_pvt'')) (gen (run pvt_step evs (pvt_init e cfg c)))"
  by (rule run_invariant [where P = "\<lambda>s. gen_from (makeRng_pvt (seed_or_empty cfg @ lit ''_pvt'')) (gen s)"])
     (simp_all add: pvt_step_gen)

lemma sart_run_gen:
  "gen_from (makeRng_sart (seed_or_empty cfg @ lit ''_sart'')) (gen (run sart_step evs (sart_init e cfg c)))"
  by (rule run_invariant [where P = "\<lambda>s. gen_from (makeRng_sart (seed_or_empty cfg @ lit ''_sart'')) (gen s)"])
     (simp_all add: sart_step_gen buildSequence_def buildSequence_loop_gen Let_def)

lemma flanker_run_gen:
  "gen_from (makeRng_flanker (seed_or_empty cfg @ lit ''_flanker''))
     (gen (run flanker_step evs (flanker_init e cfg c)))"
  by (rule run_invariant
        [where P = "\<lambda>s. gen_from (makeRng_flanker (seed_or_empty cfg @ lit ''_flanker'')) (gen s)"])
     (simp_all add: flanker_step_gen buildTrial_gen)

lemma ds_run_gen:
  "gen_from (makeRng_ds (seed_or_empty cfg @ lit ''_ds'')) (gen (run ds_step evs (ds_init e cfg c)))"
  by (rule run_invariant [where P = "\<lambda>s. gen_from (makeRng_ds (seed_or_empty cfg @ lit ''_ds'')) (gen s)"])
     (simp_all add: ds_step_gen ds_init_gen)

section \<open>mood.js\<close>

lemma rate_frame [simp]: "core (rate k v st) = core st"
  by (simp add: rate_def Let_def)

lemma submitClick_frame [simp]:
  "fetches (core (submitClick e st)) = fetches (core st)"
  "initPerfTime (core (submitClick e st)) = initPerfTime (core st)"
  "alerts (submitClick e st) =
     (if submitDisabled st then alerts st
      else alerts st @ [''Error: Missing required field: session_id''])"
  by (simp_all add: submitClick_def Let_def submit_missing [OF first_missing_mood_payload])

lemma mood_step_initPerfTime: "initPerfTime (core (mood_step e ev st)) = initPerfTime (core st)"
  by (cases ev) (simp_all add: mood_step_def lifecycle_def Let_def logEvent_def)

lemma mood_step_fetches: "fetches (core (mood_step e ev st)) = fetches (core st)"
  by (cases ev) (simp_all add: mood_step_def lifecycle_def Let_def logEvent_def)

section \<open>The trial records of sart.js\<close>

lemma sart_handleInteraction_trials:
  "list_all sart_trial_classified (trials st) \<Longrightarrow>
   list_all sart_trial_classified (trials (sart_handleInteraction e st))"
  by (simp add: sart_handleInteraction_def Let_def sart_trial_classified_def digit_val_def
      NOGO_DIGIT_def split: option.splits)

lemma responseWindowEnd_trials:
  "list_all sart_trial_classified (trials st) \<Longrightarrow>
   list_all sart_trial_classified (trials (responseWindowEnd e st))"
  by (simp add: responseWindowEnd_def Let_def sart_trial_classified_def digit_val_def
      NOGO_DIGIT_def split: option.splits)

lemma sart_step_trials:
  "list_all sart_trial_classified (trials st) \<Longrightarrow>
   list_all sart_trial_classified (trials (sart_step e ev st))"
  by (cases ev)
     (simp_all add: sart_step_def sart_fire_def lifecycle_def Let_def logEvent_def
        sart_handleInteraction_trials responseWindowEnd_trials
        split: option.splits callback.splits)

lemma sart_run_trials:
  "list_all sart_trial_classified (trials (run sart_step evs (sart_init e cfg c)))"
  by (rule run_invariant [where P = "\<lambda>s. list_all sart_trial_classified (trials s)"])
     (simp_all add: sart_step_trials)

section \<open>The example pages\<close>

lemma example_core_facts [simp]:
  "initPerfTime example_core = Some 0"
  "listenersAttached example_core"
  "submitLog example_core = []"
  "length (fetches example_core) = 1"
  "sessionId example_core = JStr (lit ''session-1'')"
  by (simp_all add: example_core_def TaskCore_init_def core0_def env_at_def)

lemma example_pvt_facts:
  "isRunning example_pvt" "\<not> isPaused example_pvt" "\<not> isStopped example_pvt"
  "listenersAttached (core example_pvt)" "activeTask (core example_pvt) = Some PvtTask"
  "submitLog (core example_pvt) = []"
  "initPerfTime (core example_pvt) = Some 0"
  "isiTimer example_pvt = Some 1" "noResponseTimer example_pvt = None"
  "taskEndTimer example_pvt = Some 2"
  "map_of (timeouts example_pvt) (Suc 0) = Some (ISI_MIN + fst (draw (new_generator (makeRng_pvt (lit ''abc123'' @ lit ''_pvt'')))) * (ISI_MAX - ISI_MIN), CbShowStimulus)"
  "map_of (timeouts example_pvt) 2 = Some (60000, CbEndTask)"
  "trials example_pvt = []"
  by (simp_all add: example_pvt_def pvt_init_def startISI_def runner_ops pvt_ops Let_def split_def
      registerTask_def example_config_def seed_or_empty_def duration_or_def)

section \<open>Claims about submission\<close>

lemma pvt_endTask_display:
  "display (pvt_endTask e st) =
     (if isStopped st then display st else ErrorText ''Error: Missing required field: session_id'')"
  by (simp add: pvt_endTask_def Let_def)

lemma sart_endTask_display:
  "display (sart_endTask e st) =
     (if isStopped st then display st else ErrorText ''Error: Missing required field: session_id'')"
  by (simp add: sart_endTask_def Let_def)

lemma flanker_endTask_display:
  "display (flanker_endTask e st) =
     (if isStopped st then display st else ErrorText ''Error: Missing required field: session_id'')"
  by (simp add: flanker_endTask_def Let_def)

lemma ds_endTask_display:
  "display (ds_endTask e st) =
     (if isStopped st then display st else ErrorText ''Error: Missing required field: session_id'')"
  by (simp add: ds_endTask_def Let_def)

text \<open>
  C2. The payload that \<open>endTask\<close> of pvt.js, sart.js, flanker.js and digit_symbol.js
  and the submit handler of mood.js pass to \<open>TaskCore.submit\<close> has no \<open>session_id\<close>
  key. \<open>submit\<close> looks for the key before it merges the stored session id into the
  body, so it rejects each of these payloads with the error
  \<open>Missing required field: session_id\<close>, whatever session id is stored, and gives
  nothing to \<open>fetch\<close>: \<open>endTask\<close> and the mood handler leave the list of requests as it
  was and show the error, and no run of a task page adds a request.
\<close>

theorem task_payloads_rejected_for_missing_session_id:
  "\<not> has_key ''session_id'' (task_payload ty endedAt st) \<and>
   \<not> has_key ''session_id'' (mood_payload e m) \<and>
   submit e (task_payload ty endedAt st) c =
     (Rejected ''Missing required field: session_id'',
      c\<lparr>submitLog := submitLog c @ [task_payload ty endedAt st]\<rparr>) \<and>
   submit e (mood_payload e' m) c =
     (Rejected ''Missing required field: session_id'',
      c\<lparr>submitLog := submitLog c @ [mood_payload e' m]\<rparr>) \<and>
   fetches (core (pvt_endTask e p)) = fetches (core p) \<and>
   display (pvt_endTask e p) =
     (if isStopped p then display p else ErrorText ''Error: Missing required field: session_id'') \<and>
   fetches (core (sart_endTask e s)) = fetches (core s) \<and>
   display (sart_endTask e s) =
     (if isStopped s then display s else ErrorText ''Error: Missing required field: session_id'') \<and>
   fetches (core (flanker_endTask e f)) = fetches (core f) \<and>
   display (flanker_endTask e f) =
     (if isStopped f then display f else ErrorText ''Error: Missing required field: session_id'') \<and>
   fetches (core (ds_endTask e d)) = fetches (core d) \<and>
   display (ds_endTask e d) =
     (if isStopped d then display d else ErrorText ''Error: Missing required field: session_id'') \<and>
   fetches (core (submitClick e m)) = fetches (core m) \<and>
   alerts (submitClick e m) =
     (if submitDisabled m then alerts m
      else alerts m @ [''Error: Missing required field: session_id'']) \<and>
   fetches (core (run pvt_step evs p)) = fetches (core p) \<and>
   fetches (core (run sart_step evs s)) = fetches (core s) \<and>
   fetches (core (run flanker_step evs f)) = fetches (core f) \<and>
   fetches (core (run ds_step evs d)) = fetches (core d) \<and>
   fetches (core (run mood_step evs m)) = fetches (core m)"
proof -
  have keys: "\<not> has_key ''session_id'' (task_payload ty endedAt st)"
    "\<not> has_key ''session_id'' (mood_payload e m)"
    by (simp_all add: has_key_def task_payload_def mood_payload_def)
  have rejected: "submit e (task_payload ty endedAt st) c =
     (Rejected ''Missing required field: session_id'',
      c\<lparr>submitLog := submitLog c @ [task_payload ty endedAt st]\<rparr>)"
    "submit e (mood_payload e' m) c =
     (Rejected ''Missing required field: session_id'',
      c\<lparr>submitLog := submitLog c @ [mood_payload e' m]\<rparr>)"
    by (simp_all add: submit_missing [OF first_missing_task_payload]
        submit_missing [OF first_missing_mood_payload])
  have runs: "fetches (core (run pvt_step evs p)) = fetches (core p)"
    "fetches (core (run sart_step evs s)) = fetches (core s)"
    "fetches (core (run flanker_step evs f)) = fetches (core f)"
    "fetches (core (run ds_step evs d)) = fetches (core d)"
    "fetches (core (run mood_step evs m)) = fetches (core m)"
    by (rule run_preserves [where f = "\<lambda>s. fetches (core s)"],
        simp add: pvt_step_fetches sart_step_fetches flanker_step_fetches ds_step_fetches
          mood_step_fetches)+
  show ?thesis
    by (simp only: keys rejected runs pvt_endTask_frame sart_endTask_frame flanker_endTask_frame
        ds_endTask_frame submitClick_frame pvt_endTask_display sart_endTask_display
        flanker_endTask_display ds_endTask_display simp_thms)
qed

theorem task_payloads_rejected_for_missing_session_id_witness:
  "\<not> has_key ''session_id'' (task_payload ''pvt'' (JIso 60000) example_pvt) \<and>
   sessionId example_core = JStr (lit ''session-1'') \<and>
   fst (submit (env_at 60000) (task_payload ''pvt'' (JIso 60000) example_pvt) example_core) =
     Rejected ''Missing required field: session_id'' \<and>
   fetches (core (pvt_endTask (env_at 60000) example_pvt)) = fetches (core example_pvt) \<and>
   display (pvt_endTask (env_at 60000) example_pvt) =
     ErrorText ''Error: Missing required field: session_id''"
  using task_payloads_rejected_for_missing_session_id
    [of "''pvt''" "JIso 60000" example_pvt "env_at 60000" example_mood example_core "env_at 0"
        example_pvt example_sart example_flanker example_ds "[]"]
  by (simp add: example_pvt_facts)

section \<open>Claims about connectivity loss\<close>

lemma lifecycle_Offline:
  "listenersAttached (core st) \<Longrightarrow> activeTask (core st) \<noteq> None \<Longrightarrow>
   lifecycle pause resume abort e Offline st =
     (abort ''offline'' (st\<lparr>core := logEvent e ''offline'' (JObj [(''at'', wallClock e)]) (core st)\<rparr>))
       \<lparr>core := (core (abort ''offline''
            (st\<lparr>core := logEvent e ''offline'' (JObj [(''at'', wallClock e)]) (core st)\<rparr>)))
          \<lparr>offlineBanner := True\<rparr>\<rparr>"
  by (simp add: lifecycle_def Let_def)

lemma Offline_steps_stop:
  "listenersAttached (core p) \<Longrightarrow> activeTask (core p) \<noteq> None \<Longrightarrow> isStopped (pvt_step e Offline p)"
  "listenersAttached (core s) \<Longrightarrow> activeTask (core s) \<noteq> None \<Longrightarrow> isStopped (sart_step e Offline s)"
  "listenersAttached (core f) \<Longrightarrow> activeTask (core f) \<noteq> None \<Longrightarrow> isStopped (flanker_step e Offline f)"
  "listenersAttached (core d) \<Longrightarrow> activeTask (core d) \<noteq> None \<Longrightarrow> isStopped (ds_step e Offline d)"
  by (simp_all add: pvt_step_def sart_step_def flanker_step_def ds_step_def lifecycle_def Let_def)

lemma Offline_steps_submitLog:
  "submitLog (core (pvt_step e Offline p)) = submitLog (core p)"
  "submitLog (core (sart_step e Offline s)) = submitLog (core s)"
  "submitLog (core (flanker_step e Offline f)) = submitLog (core f)"
  "submitLog (core (ds_step e Offline d)) = submitLog (core d)"
  by (simp_all add: pvt_step_def sart_step_def flanker_step_def ds_step_def lifecycle_def Let_def
      logEvent_def)

text \<open>
  C5. A call of \<open>TaskCore.submit\<close> while \<open>navigator.onLine\<close> is false is rejected with
  an error and gives nothing to \<open>fetch\<close>. The listener of the \<open>offline\<close> event logs the
  event and calls \<open>abort("offline")\<close> on the registered task; on the four timed tasks
  this stops the task, and the event adds neither a request nor a call of \<open>submit\<close>:
  nothing is buffered or sent again.
\<close>

theorem offline_rejects_submit_and_aborts_task:
  assumes "\<not> onLine e"
    and "listenersAttached (core st)" and "activeTask (core st) \<noteq> None"
    and "listenersAttached (core p)" and "activeTask (core p) \<noteq> None"
    and "listenersAttached (core s)" and "activeTask (core s) \<noteq> None"
    and "listenersAttached (core f)" and "activeTask (core f) \<noteq> None"
    and "listenersAttached (core d)" and "activeTask (core d) \<noteq> None"
  shows "(\<exists>msg. fst (submit e payload c) = Rejected msg) \<and>
    fetches (snd (submit e payload c)) = fetches c \<and>
    lifecycle pause resume abort e' Offline st =
      (abort ''offline'' (st\<lparr>core := logEvent e' ''offline'' (JObj [(''at'', wallClock e')]) (core st)\<rparr>))
        \<lparr>core := (core (abort ''offline''
             (st\<lparr>core := logEvent e' ''offline'' (JObj [(''at'', wallClock e')]) (core st)\<rparr>)))
           \<lparr>offlineBanner := True\<rparr>\<rparr> \<and>
    isStopped (pvt_step e' Offline p) \<and>
    fetches (core (pvt_step e' Offline p)) = fetches (core p) \<and>
    submitLog (core (pvt_step e' Offline p)) = submitLog (core p) \<and>
    isStopped (sart_step e' Offline s) \<and>
    fetches (core (sart_step e' Offline s)) = fetches (core s) \<and>
    submitLog (core (sart_step e' Offline s)) = submitLog (core s) \<and>
    isStopped (flanker_step e' Offline f) \<and>
    fetches (core (flanker_step e' Offline f)) = fetches (core f) \<and>
    submitLog (core (flanker_step e' Offline f)) = submitLog (core f) \<and>
    isStopped (ds_step e' Offline d) \<and>
    fetches (core (ds_step e' Offline d)) = fetches (core d) \<and>
    submitLog (core (ds_step e' Offline d)) = submitLog (core d)"
  using assms
  by (simp only: submit_offline lifecycle_Offline Offline_steps_stop Offline_steps_submitLog
      pvt_step_fetches sart_step_fetches flanker_step_fetches ds_step_fetches simp_thms)

theorem offline_rejects_submit_and_aborts_task_witness:
  "\<not> onLine ((env_at 5000)\<lparr>onLine := False\<rparr>) \<and>
   listenersAttached (core example_pvt) \<and> activeTask (core example_pvt) \<noteq> None \<and>
   listenersAttached (core example_sart) \<and> activeTask (core example_sart) \<noteq> None \<and>
   listenersAttached (core example_flanker) \<and> activeTask (core example_flanker) \<noteq> None \<and>
   listenersAttached (core example_ds) \<and> activeTask (core example_ds) \<noteq> None \<and>
   fst (submit ((env_at 5000)\<lparr>onLine := False\<rparr>)
          ((''session_id'', JStr (lit ''session-1'')) # task_payload ''pvt'' (JIso 0) example_pvt)
          example_core) =
     Rejected ''You are offline. Cannot submit task result.'' \<and>
   fetches (snd (submit ((env_at 5000)\<lparr>onLine := False\<rparr>)
          ((''session_id'', JStr (lit ''session-1'')) # task_payload ''pvt'' (JIso 0) example_pvt)
          example_core)) = fetches example_core \<and>
   isStopped (pvt_step ((env_at 5000)\<lparr>onLine := False\<rparr>) Offline example_pvt) \<and>
   submitLog (core (pvt_step ((env_at 5000)\<lparr>onLine := False\<rparr>) Offline example_pvt)) = [] \<and>
   fetches (core (pvt_step ((env_at 5000)\<lparr>onLine := False\<rparr>) Offline example_pvt)) =
     fetches (core example_pvt)"
proof -
  have off: "\<not> onLine ((env_at 5000)\<lparr>onLine := False\<rparr>)"
    by simp
  have sart: "listenersAttached (core example_sart)" "activeTask (core example_sart) \<noteq> None"
    by (simp_all add: example_sart_def sart_init_def sart_showNextTrial_def sart_endTask_def
        runner_ops Let_def split_def registerTask_def)
  have flanker: "listenersAttached (core example_flanker)" "activeTask (core example_flanker) \<noteq> None"
    by (simp_all add: example_flanker_def registerTask_def)
  have ds: "listenersAttached (core example_ds)" "activeTask (core example_ds) \<noteq> None"
    by (simp_all add: example_ds_def registerTask_def)
  have pvt: "listenersAttached (core example_pvt)" "activeTask (core example_pvt) \<noteq> None"
    by (simp_all add: example_pvt_facts)
  have missing: "fst (submit ((env_at 5000)\<lparr>onLine := False\<rparr>)
          ((''session_id'', JStr (lit ''session-1'')) # task_payload ''pvt'' (JIso 0) example_pvt)
          example_core) =
     Rejected ''You are offline. Cannot submit task result.''"
    by (simp add: submit_def REQUIRED_def has_key_def task_payload_def)
  show ?thesis
    using offline_rejects_submit_and_aborts_task
      [OF off pvt pvt sart flanker ds,
         of "(''session_id'', JStr (lit ''session-1'')) # task_payload ''pvt'' (JIso 0) example_pvt"
         example_core pvt_pause pvt_resume pvt_abort
         "(env_at 5000)\<lparr>onLine := False\<rparr>"]
    by (simp add: off pvt sart flanker ds missing example_pvt_facts)
qed


section \<open>Claims about the scoring of PVT responses\<close>

lemma example_pvt_onset_facts:
  "isRunning example_pvt_onset" "\<not> isPaused example_pvt_onset" "\<not> isStopped example_pvt_onset"
  "stimulusStartMs example_pvt_onset = Some 7559" "trials example_pvt_onset = []"
  "initPerfTime (core example_pvt_onset) = Some 0"
  by (simp_all add: example_pvt_onset_def pvt_step_def pvt_fire_def example_pvt_facts
      showStimulus_def runner_ops pvt_ops Let_def split_def TaskCore_now_def env_at_def)

text \<open>
  The timeout that brings the stimulus of the example page was set with a delay between
  2000 ms and 7559 ms, so it is due when \<open>example_pvt_onset\<close> fires it.
\<close>

lemma example_pvt_isi_due:
  "2000 \<le> ISI_MIN + fst (draw (new_generator (makeRng_pvt (lit ''abc123'' @ lit ''_pvt'')))) * (ISI_MAX - ISI_MIN)"
  "ISI_MIN + fst (draw (new_generator (makeRng_pvt (lit ''abc123'' @ lit ''_pvt'')))) * (ISI_MAX - ISI_MIN) \<le> 7559"
proof -
  have seed: "makeRng_pvt (lit ''abc123'' @ lit ''_pvt'') = 2046072402"
    by (simp add: makeRng_pvt_def lit_def)
  have "rng 2046072402 = (2984327793 / 4294967296, 3877638215)"
    by (simp add: rng_def mulberry_def Let_def)
  then have "fst (draw (new_generator (makeRng_pvt (lit ''abc123'' @ lit ''_pvt'')))) =
      2984327793 / 4294967296"
    by (simp add: seed draw_def new_generator_def)
  then show
    "2000 \<le> ISI_MIN + fst (draw (new_generator (makeRng_pvt (lit ''abc123'' @ lit ''_pvt'')))) * (ISI_MAX - ISI_MIN)"
    "ISI_MIN + fst (draw (new_generator (makeRng_pvt (lit ''abc123'' @ lit ''_pvt'')))) * (ISI_MAX - ISI_MIN) \<le> 7559"
    by (simp_all add: ISI_MIN_def ISI_MAX_def)
qed

text \<open>\<open>Math.round\<close> of a latency is below 100 exactly when the latency is below 99.5.\<close>

lemma js_round_less_100: "js_round x < 100 \<longleftrightarrow> x < 199 / 2"
proof -
  have "js_round x < 100 \<longleftrightarrow> x + 1 / 2 < 100"
    unfolding js_round_def using floor_less_iff [of "x + 1 / 2" 100] by simp
  then show ?thesis by auto
qed

lemma js_round_greater_500: "js_round x > 500 \<longleftrightarrow> 1001 / 2 \<le> x"
proof -
  have "500 < js_round x \<longleftrightarrow> 501 \<le> js_round x"
    by auto
  also have "\<dots> \<longleftrightarrow> 501 \<le> x + 1 / 2"
    unfolding js_round_def using le_floor_iff [of 501 "x + 1 / 2"] by simp
  finally show ?thesis by auto
qed

text \<open>
  C6, as the specification states it: every response with a latency below 100 ms while
  a stimulus is visible is an anticipation. The code compares the rounded latency: on
  the example page the stimulus appears at 7559 and a tap at 7658.5 has a latency of
  99.5 ms, below 100; \<open>recordResponse\<close> stores \<open>rt_ms\<close> 100 and \<open>is_anticipation\<close>
  false, and the record is not a lapse either.
\<close>

theorem pvt_latency_below_100_not_anticipation:
  "isRunning example_pvt_onset \<and> \<not> isPaused example_pvt_onset \<and> \<not> isStopped example_pvt_onset \<and>
   stimulusStartMs example_pvt_onset = Some 7559 \<and>
   TaskCore_now (env_at (15317 / 2)) (core example_pvt_onset) - 7559 < 100 \<and>
   trials (pvt_handleInteraction (env_at (15317 / 2)) example_pvt_onset) =
     [[(''stimulus_at_ms'', JNum 7559), (''response_at_ms'', JNum 7659), (''rt_ms'', JNum 100),
       (''is_anticipation'', JBool False), (''is_lapse'', JBool False), (''responded'', JBool True)]]"
proof -
  have now: "TaskCore_now (env_at (15317 / 2)) (core example_pvt_onset) = 15317 / 2"
    by (simp add: TaskCore_now_def example_pvt_onset_facts env_at_def)
  show ?thesis
    by (simp add: pvt_handleInteraction_def recordResponse_visible example_pvt_onset_facts now
        js_round_def)
qed

text \<open>
  C6, amended: in the PVT, a response made while a stimulus is visible is classified by
  its rounded latency \<open>rt_ms = Math.round(latency)\<close>. Every such response with a
  latency below 99.5 ms, so that \<open>rt_ms\<close> is below 100, is classified as an
  anticipation: the one trial record that the response adds has \<open>is_anticipation\<close> true
  and \<open>is_lapse\<close> false, so it is not recorded as a valid reaction time. In general the
  record has \<open>is_anticipation\<close> true exactly when the latency is below 99.5 ms, and
  \<open>is_lapse\<close> true exactly when it is at least 500.5 ms.
\<close>

theorem pvt_response_below_99_5_is_anticipation:
  assumes "isRunning st" and "\<not> isPaused st" and "\<not> isStopped st"
    and "stimulusStartMs st = Some s"
  shows "trials (pvt_handleInteraction e st) = trials st @
     [[(''stimulus_at_ms'', JNum (real_of_int (js_round s))),
       (''response_at_ms'', JNum (real_of_int (js_round (TaskCore_now e (core st))))),
       (''rt_ms'', JNum (real_of_int (js_round (TaskCore_now e (core st) - s)))),
       (''is_anticipation'', JBool (TaskCore_now e (core st) - s < 199 / 2)),
       (''is_lapse'', JBool (1001 / 2 \<le> TaskCore_now e (core st) - s)),
       (''responded'', JBool True)]] \<and>
    (if TaskCore_now e (core st) - s < 199 / 2
     then map_of (last (trials (pvt_handleInteraction e st))) ''is_anticipation'' = Some (JBool True) \<and>
          map_of (last (trials (pvt_handleInteraction e st))) ''is_lapse'' = Some (JBool False) \<and>
          js_round (TaskCore_now e (core st) - s) < 100
     else map_of (last (trials (pvt_handleInteraction e st))) ''is_anticipation'' = Some (JBool False))"
  using assms
  by (simp add: pvt_handleInteraction_def recordResponse_visible js_round_less_100
      js_round_greater_500)

theorem pvt_response_below_99_5_is_anticipation_witness:
  "isRunning example_pvt_onset \<and> \<not> isPaused example_pvt_onset \<and> \<not> isStopped example_pvt_onset \<and>
   stimulusStartMs example_pvt_onset = Some 7559 \<and>
   map_of (timeouts example_pvt) 1 =
     Some (ISI_MIN + fst (draw (new_generator (makeRng_pvt (lit ''abc123'' @ lit ''_pvt'')))) *
             (ISI_MAX - ISI_MIN), CbShowStimulus) \<and>
   ISI_MIN + fst (draw (new_generator (makeRng_pvt (lit ''abc123'' @ lit ''_pvt'')))) *
     (ISI_MAX - ISI_MIN) \<le> 7559 \<and>
   TaskCore_now (env_at 7609) (core example_pvt_onset) - 7559 < 199 / 2 \<and>
   trials (pvt_handleInteraction (env_at 7609) example_pvt_onset) =
     [[(''stimulus_at_ms'', JNum 7559), (''response_at_ms'', JNum 7609), (''rt_ms'', JNum 50),
       (''is_anticipation'', JBool True), (''is_lapse'', JBool False), (''responded'', JBool True)]]"
proof -
  have now: "TaskCore_now (env_at 7609) (core example_pvt_onset) = 7609"
    by (simp add: TaskCore_now_def example_pvt_onset_facts env_at_def)
  show ?thesis
    using pvt_response_below_99_5_is_anticipation [OF example_pvt_onset_facts(1-4), of "env_at 7609"]
    by (simp add: example_pvt_onset_facts now js_round_def example_pvt_facts example_pvt_isi_due(2))
qed

text \<open>
  C7. In the PVT, whatever the seed, a response of the participant 300 ms after the
  onset of the stimulus (at in-task offset 1500 ms for an onset at 1200 ms, and likewise
  for every other onset) adds a trial with reaction time exactly 300 ms that is neither
  a lapse, since 300 is not above 500, nor an anticipation, since 300 is not below 100.
\<close>

theorem pvt_response_300ms_after_onset:
  assumes "isRunning st" and "\<not> isPaused st" and "\<not> isStopped st"
    and "stimulusStartMs st = Some s"
    and "TaskCore_now e (core st) = s + 300"
  shows "trials (pvt_handleInteraction e st) = trials st @
     [[(''stimulus_at_ms'', JNum (real_of_int (js_round s))),
       (''response_at_ms'', JNum (real_of_int (js_round (s + 300)))),
       (''rt_ms'', JNum 300),
       (''is_anticipation'', JBool False),
       (''is_lapse'', JBool False),
       (''responded'', JBool True)]] \<and>
     (if s = 1200
      then trials (pvt_handleInteraction e st) = trials st @
        [[(''stimulus_at_ms'', JNum 1200), (''response_at_ms'', JNum 1500), (''rt_ms'', JNum 300),
          (''is_anticipation'', JBool False), (''is_lapse'', JBool False), (''responded'', JBool True)]]
      else True)"
  using assms by (simp add: pvt_handleInteraction_def recordResponse_visible js_round_def)

theorem pvt_response_300ms_after_onset_witness:
  "isRunning example_pvt_onset \<and> \<not> isPaused example_pvt_onset \<and> \<not> isStopped example_pvt_onset \<and>
   stimulusStartMs example_pvt_onset = Some 7559 \<and>
   map_of (timeouts example_pvt) 1 =
     Some (ISI_MIN + fst (draw (new_generator (makeRng_pvt (lit ''abc123'' @ lit ''_pvt'')))) *
             (ISI_MAX - ISI_MIN), CbShowStimulus) \<and>
   ISI_MIN + fst (draw (new_generator (makeRng_pvt (lit ''abc123'' @ lit ''_pvt'')))) *
     (ISI_MAX - ISI_MIN) \<le> 7559 \<and>
   TaskCore_now (env_at 7859) (core example_pvt_onset) = 7559 + 300 \<and>
   trials (pvt_handleInteraction (env_at 7859) example_pvt_onset) =
     [[(''stimulus_at_ms'', JNum 7559), (''response_at_ms'', JNum 7859), (''rt_ms'', JNum 300),
       (''is_anticipation'', JBool False), (''is_lapse'', JBool False), (''responded'', JBool True)]]"
proof -
  have now: "TaskCore_now (env_at 7859) (core example_pvt_onset) = 7559 + 300"
    by (simp add: TaskCore_now_def example_pvt_onset_facts env_at_def)
  show ?thesis
    using pvt_response_300ms_after_onset [OF example_pvt_onset_facts(1-4) now]
    by (simp add: example_pvt_onset_facts now js_round_def example_pvt_facts example_pvt_isi_due(2))
qed

section \<open>Claims about the seeded sequences\<close>

text \<open>
  C8. The seeded generator is deterministic. In every run of a task page the values
  its generator has returned are an initial segment of one sequence that the seed and
  the task's salt determine; so two runs with the same seed, whatever the browser
  reports and whatever the participant does in each, agree draw for draw as far as both
  have drawn. The digit sequence that sart.js builds at \<open>init\<close> is the same in both
  when the duration is the same.
\<close>

theorem seeded_sequences_deterministic:
  assumes "config_seed cfg1 = config_seed cfg2"
  shows
   "take (length (drawn (gen (run pvt_step evs2 (pvt_init e2 cfg2 c2)))))
      (drawn (gen (run pvt_step evs1 (pvt_init e1 cfg1 c1)))) =
    take (length (drawn (gen (run pvt_step evs1 (pvt_init e1 cfg1 c1)))))
      (drawn (gen (run pvt_step evs2 (pvt_init e2 cfg2 c2)))) \<and>
    take (length (drawn (gen (run sart_step evs2 (sart_init e2 cfg2 c2)))))
      (drawn (gen (run sart_step evs1 (sart_init e1 cfg1 c1)))) =
    take (length (drawn (gen (run sart_step evs1 (sart_init e1 cfg1 c1)))))
      (drawn (gen (run sart_step evs2 (sart_init e2 cfg2 c2)))) \<and>
    take (length (drawn (gen (run flanker_step evs2 (flanker_init e2 cfg2 c2)))))
      (drawn (gen (run flanker_step evs1 (flanker_init e1 cfg1 c1)))) =
    take (length (drawn (gen (run flanker_step evs1 (flanker_init e1 cfg1 c1)))))
      (drawn (gen (run flanker_step evs2 (flanker_init e2 cfg2 c2)))) \<and>
    take (length (drawn (gen (run ds_step evs2 (ds_init e2 cfg2 c2)))))
      (drawn (gen (run ds_step evs1 (ds_init e1 cfg1 c1)))) =
    take (length (drawn (gen (run ds_step evs1 (ds_init e1 cfg1 c1)))))
      (drawn (gen (run ds_step evs2 (ds_init e2 cfg2 c2)))) \<and>
    drawn (gen (run pvt_step evs1 (pvt_init e1 cfg1 c1))) =
      rng_draws (length (drawn (gen (run pvt_step evs1 (pvt_init e1 cfg1 c1)))))
        (makeRng_pvt (seed_or_empty cfg1 @ lit ''_pvt'')) \<and>
    (if config_durationMs cfg1 = config_durationMs cfg2
     then sequence (run sart_step evs1 (sart_init e1 cfg1 c1)) =
          sequence (run sart_step evs2 (sart_init e2 cfg2 c2))
     else True)"
proof -
  have seed: "seed_or_empty cfg1 = seed_or_empty cfg2"
    using assms by (simp add: seed_or_empty_def)
  have seqs: "sequence (run sart_step evs (sart_init e cfg c)) = sequence (sart_init e cfg c)"
    for evs e cfg c
    by (rule run_preserves [where f = sequence]) (rule sart_step_sequence)
  have dur: "config_durationMs cfg1 = config_durationMs cfg2 \<Longrightarrow>
      duration_or cfg1 75000 = duration_or cfg2 75000"
    by (simp add: duration_or_def)
  have pvt: "drawn (gen (run pvt_step evs1 (pvt_init e1 cfg1 c1))) =
      rng_draws (length (drawn (gen (run pvt_step evs1 (pvt_init e1 cfg1 c1)))))
        (makeRng_pvt (seed_or_empty cfg1 @ lit ''_pvt''))"
    using pvt_run_gen [of cfg1 evs1 e1 c1] by (simp add: gen_from_def)
  have p: "take (length (drawn (gen (run pvt_step evs2 (pvt_init e2 cfg2 c2)))))
      (drawn (gen (run pvt_step evs1 (pvt_init e1 cfg1 c1)))) =
    take (length (drawn (gen (run pvt_step evs1 (pvt_init e1 cfg1 c1)))))
      (drawn (gen (run pvt_step evs2 (pvt_init e2 cfg2 c2))))"
    using gen_from_common_prefix
      [OF pvt_run_gen [of cfg1 evs1 e1 c1] pvt_run_gen [of cfg2 evs2 e2 c2, folded seed]]
    by simp
  have s: "take (length (drawn (gen (run sart_step evs2 (sart_init e2 cfg2 c2)))))
      (drawn (gen (run sart_step evs1 (sart_init e1 cfg1 c1)))) =
    take (length (drawn (gen (run sart_step evs1 (sart_init e1 cfg1 c1)))))
      (drawn (gen (run sart_step evs2 (sart_init e2 cfg2 c2))))"
    using gen_from_common_prefix
      [OF sart_run_gen [of cfg1 evs1 e1 c1] sart_run_gen [of cfg2 evs2 e2 c2, folded seed]]
    by simp
  have f: "take (length (drawn (gen (run flanker_step evs2 (flanker_init e2 cfg2 c2)))))
      (drawn (gen (run flanker_step evs1 (flanker_init e1 cfg1 c1)))) =
    take (length (drawn (gen (run flanker_step evs1 (flanker_init e1 cfg1 c1)))))
      (drawn (gen (run flanker_step evs2 (flanker_init e2 cfg2 c2))))"
    using gen_from_common_prefix
      [OF flanker_run_gen [of cfg1 evs1 e1 c1] flanker_run_gen [of cfg2 evs2 e2 c2, folded seed]]
    by simp
  have d: "take (length (drawn (gen (run ds_step evs2 (ds_init e2 cfg2 c2)))))
      (drawn (gen (run ds_step evs1 (ds_init e1 cfg1 c1)))) =
    take (length (drawn (gen (run ds_step evs1 (ds_init e1 cfg1 c1)))))
      (drawn (gen (run ds_step evs2 (ds_init e2 cfg2 c2))))"
    using gen_from_common_prefix
      [OF ds_run_gen [of cfg1 evs1 e1 c1] ds_run_gen [of cfg2 evs2 e2 c2, folded seed]]
    by simp
  have q: "config_durationMs cfg1 = config_durationMs cfg2 \<Longrightarrow>
      sequence (run sart_step evs1 (sart_init e1 cfg1 c1)) =
      sequence (run sart_step evs2 (sart_init e2 cfg2 c2))"
    using dur by (simp add: seqs seed)
  show ?thesis
    using p s f d pvt q by simp
qed


lemma example_pvt_more_facts:
  "listening example_pvt" "stimulusStartMs example_pvt = None"
  "length (drawn (gen example_pvt)) = 1"
  by (simp_all add: example_pvt_def pvt_init_def startISI_def runner_ops pvt_ops Let_def split_def
      draw_def new_generator_def)

lemma example_tap_draws:
  "length (drawn (gen (run pvt_step example_tap example_pvt))) = 2"
  by (simp add: example_tap_def pvt_step_def pvt_handleInteraction_def recordResponse_def
      startISI_def runner_ops pvt_ops Let_def split_def draw_def example_pvt_facts
      example_pvt_more_facts)

theorem seeded_sequences_deterministic_witness:
  "config_seed example_config = config_seed example_config \<and>
   length (drawn (gen (run pvt_step [] example_pvt))) = 1 \<and>
   length (drawn (gen (run pvt_step example_tap example_pvt))) = 2 \<and>
   take 1 (drawn (gen (run pvt_step example_tap example_pvt))) =
     drawn (gen (run pvt_step [] example_pvt))"
  using seeded_sequences_deterministic
    [where ?cfg1.0 = example_config and ?cfg2.0 = example_config and ?evs1.0 = "[]"
       and ?evs2.0 = example_tap and ?e1.0 = "env_at 0" and ?e2.0 = "env_at 0"
       and ?c1.0 = example_core and ?c2.0 = example_core]
  by (simp add: example_tap_draws example_pvt_more_facts example_pvt_def [symmetric])

section \<open>Claims about the scoring of SART trials\<close>

text \<open>
  C10. Every trial record of a SART run is scored as the task defines it: a trial
  with a response is a commission error exactly when its digit is the no-go digit 3, a
  trial without a response is an omission error exactly when its digit is not 3, and no
  trial is both.
\<close>

theorem sart_trials_classified:
  "\<forall>t \<in> set (trials (run sart_step evs (sart_init e cfg c))). sart_trial_classified t"
  using sart_run_trials [of evs e cfg c] by (simp add: list_all_iff)

lemma buildSequence_loop_prefix:
  "take (length seq) (fst (buildSequence_loop n g seq)) = seq"
proof (induction n arbitrary: g seq)
  case 0
  then show ?case by simp
next
  case (Suc n)
  have *: "take (length seq) (fst (buildSequence_loop n g' (seq @ [x]))) = seq" for g' x
  proof -
    have "take (length seq) (take (length (seq @ [x])) (fst (buildSequence_loop n g' (seq @ [x])))) = seq"
      by (simp only: Suc.IH) simp
    then show ?thesis by (simp add: min_def)
  qed
  show ?case by (simp add: split_def *)
qed

lemma example_sart_seed: "makeRng_sart (lit ''seed1'' @ lit ''_sart'') = - 356994276"
  by (simp add: makeRng_sart_def lit_def)

lemma example_sart_draws:
  "rng (- 356994276) = (174730081 / 4294967296, 1474571537)"
  "rng 1474571537 = (1586424036 / 4294967296, 3306137350)"
  "rng 3306137350 = (745237244 / 4294967296, 5137703163)"
  by (simp_all add: rng_def mulberry_def Let_def)

lemma example_sart_sequence:
  "take 2 (fst (buildSequence (new_generator (- 356994276)) 2300)) = [3, 2]"
proof -
  have count: "nat (\<lceil>2300 / (STIMULUS_MS + sart_ISI_MS)\<rceil> + 5) = Suc (Suc 5)"
    by (simp add: STIMULUS_MS_def sart_ISI_MS_def)
  have one: "buildSequence_loop (Suc (Suc 5)) \<lparr>gen_h = - 356994276, drawn = []\<rparr> [] =
        buildSequence_loop (Suc 5) \<lparr>gen_h = 1474571537, drawn = [174730081 / 4294967296]\<rparr> [3]"
    by (subst buildSequence_loop.simps(2))
       (simp add: draw_def example_sart_draws NOGO_DIGIT_def)
  have two: "buildSequence_loop (Suc 5) \<lparr>gen_h = 1474571537, drawn = [174730081 / 4294967296]\<rparr> [3] =
        buildSequence_loop 5
          \<lparr>gen_h = 5137703163,
            drawn = [174730081 / 4294967296, 1586424036 / 4294967296, 745237244 / 4294967296]\<rparr> [3, 2]"
    by (subst buildSequence_loop.simps(2))
       (simp add: draw_def example_sart_draws NOGO_DIGIT_def goDigits_def)
  have "fst (buildSequence (new_generator (- 356994276)) 2300) =
        fst (buildSequence_loop 5
          \<lparr>gen_h = 5137703163,
            drawn = [174730081 / 4294967296, 1586424036 / 4294967296, 745237244 / 4294967296]\<rparr> [3, 2])"
    unfolding buildSequence_def Let_def count new_generator_def one two ..
  moreover have "take 2 (fst (buildSequence_loop 5 g [3, 2])) = [3, 2]" for g
    using buildSequence_loop_prefix [of "[3, 2]" 5 g] by (simp add: numeral_2_eq_2)
  ultimately show ?thesis
    by (simp only:)
qed

lemma example_sart_digits:
  "fst (buildSequence (new_generator (makeRng_sart (lit ''seed1'' @ lit ''_sart''))) 2300) ! 0 = 3"
  "fst (buildSequence (new_generator (makeRng_sart (lit ''seed1'' @ lit ''_sart''))) 2300) ! Suc 0 = 2"
  "length (fst (buildSequence (new_generator (makeRng_sart (lit ''seed1'' @ lit ''_sart''))) 2300)) = 7"
  "fst (buildSequence (new_generator (makeRng_sart (lit ''seed1'' @ lit ''_sart''))) 2300) \<noteq> []"
proof -
  let ?S = "fst (buildSequence (new_generator (makeRng_sart (lit ''seed1'' @ lit ''_sart''))) 2300)"
  have t: "take 2 ?S = [3, 2]"
    by (simp only: example_sart_seed example_sart_sequence)
  have "take 2 ?S ! 0 = ?S ! 0" and "take 2 ?S ! Suc 0 = ?S ! Suc 0"
    by simp_all
  then show "?S ! 0 = 3" and "?S ! Suc 0 = 2"
    by (simp_all add: t)
  show len: "length ?S = 7"
    by (simp add: buildSequence_def Let_def buildSequence_loop_length STIMULUS_MS_def sart_ISI_MS_def)
  show "?S \<noteq> []"
    using len by auto
qed

lemma example_sart_run_trials:
  "trials (run sart_step example_sart_events (sart_init (env_at 0) example_sart_config example_core)) =
     [[(''digit'', JNum 3), (''is_nogo'', JBool True), (''responded'', JBool True),
       (''rt_ms'', JNum 400), (''is_commission'', JBool True), (''is_omission'', JBool False)]]"
  by (simp add: example_sart_events_def sart_init_def sart_step_def
      sart_showNextTrial_def sart_handleInteraction_def
      runner_ops Let_def split_def example_sart_config_def seed_or_empty_def duration_or_def
      example_sart_digits since_trial_start_def TaskCore_now_def env_at_def js_round_def
      digit_val_def NOGO_DIGIT_def registerTask_def STIMULUS_MS_def)

theorem sart_trials_classified_witness:
  "[(''digit'', JNum 3), (''is_nogo'', JBool True), (''responded'', JBool True),
    (''rt_ms'', JNum 400), (''is_commission'', JBool True), (''is_omission'', JBool False)]
     \<in> set (trials (run sart_step example_sart_events
                 (sart_init (env_at 0) example_sart_config example_core))) \<and>
   sart_trial_classified
     [(''digit'', JNum 3), (''is_nogo'', JBool True), (''responded'', JBool True),
      (''rt_ms'', JNum 400), (''is_commission'', JBool True), (''is_omission'', JBool False)]"
proof -
  have mem: "[(''digit'', JNum 3), (''is_nogo'', JBool True), (''responded'', JBool True),
    (''rt_ms'', JNum 400), (''is_commission'', JBool True), (''is_omission'', JBool False)]
     \<in> set (trials (run sart_step example_sart_events
                 (sart_init (env_at 0) example_sart_config example_core)))"
    by (simp only: example_sart_run_trials list.set insert_iff simp_thms)
  show ?thesis
    using mem sart_trials_classified [of example_sart_events "env_at 0" example_sart_config example_core]
    by blast
qed

section \<open>Claims about the in-task clock\<close>


lemma map_of_filter_neq:
  "map_of (filter (\<lambda>t. fst t \<noteq> i) ts) k = (if k \<noteq> i then map_of ts k else None)"
  by (induction ts) auto

lemma pvt_pause_timeouts:
  "timeouts (pvt_pause st) =
     filter (\<lambda>t. Some (fst t) \<noteq> isiTimer st \<and> Some (fst t) \<noteq> noResponseTimer st) (timeouts st)"
  by (cases "isiTimer st"; cases "noResponseTimer st")
     (auto simp: pvt_pause_def Let_def runner_ops pvt_ops split: option.splits intro: filter_cong)


lemma pvt_pause_handles [simp]:
  "isiTimer (pvt_pause st) = isiTimer st"
  "noResponseTimer (pvt_pause st) = noResponseTimer st"
  "animTimer (pvt_pause st) = animTimer st"
  by (simp_all add: pvt_pause_def Let_def runner_ops pvt_ops split: option.splits)

lemma pvt_step_Hidden:
  "listenersAttached (core st) \<Longrightarrow> activeTask (core st) \<noteq> None \<Longrightarrow>
   pvt_step e VisibilityHidden st =
     pvt_pause (st\<lparr>core := logEvent e ''visibility_hidden'' (JObj [(''at'', wallClock e)]) (core st)\<rparr>)"
  by (simp add: pvt_step_def lifecycle_def Let_def)

lemma pvt_step_Visible:
  "listenersAttached (core st) \<Longrightarrow> activeTask (core st) \<noteq> None \<Longrightarrow>
   pvt_step e VisibilityVisible st =
     pvt_resume e (st\<lparr>core := logEvent e ''visibility_visible'' (JObj [(''at'', wallClock e)]) (core st)\<rparr>)"
  by (simp add: pvt_step_def lifecycle_def Let_def)

lemma example_pvt_paused_facts:
  "isPaused example_pvt_paused" "\<not> isStopped example_pvt_paused" "isRunning example_pvt_paused"
  "initPerfTime (core example_pvt_paused) = Some 0"
  "listenersAttached (core example_pvt_paused)" "activeTask (core example_pvt_paused) = Some PvtTask"
  "submitLog (core example_pvt_paused) = []"
  "taskEndTimer example_pvt_paused = Some 2"
  "isiTimer example_pvt_paused = Some 1"
  "map_of (timeouts example_pvt_paused) (Suc 0) = None"
  "map_of (timeouts example_pvt_paused) 2 = Some (60000, CbEndTask)"
  by (simp_all add: example_pvt_paused_def pvt_step_Hidden example_pvt_facts logEvent_def
      pvt_pause_timeouts map_of_filter_neq)

lemma example_pvt_resumed_facts:
  "\<not> isPaused example_pvt_resumed" "\<not> isStopped example_pvt_resumed"
  "initPerfTime (core example_pvt_resumed) = Some 0"
  by (simp_all add: example_pvt_resumed_def pvt_step_Visible logEvent_def
      example_pvt_paused_facts)

text \<open>
  C3, as the specification states it: the in-task clock \<open>TaskCore.now\<close> leaves out
  the time spent paused. The code does not: the example page is paused at performance
  time 1000 and resumed at 6000, a pause of 5000 ms; at the resume the clock without
  the pause would read 1000, and \<open>TaskCore.now\<close> reads 6000.
\<close>

theorem now_includes_paused_interval:
  "isPaused example_pvt_paused \<and> \<not> isPaused example_pvt_resumed \<and>
   TaskCore_now (env_at 1000) (core example_pvt_paused) = 1000 \<and>
   TaskCore_now (env_at 6000) (core example_pvt_resumed) = 6000 \<and>
   elapsed_excluding_pauses 0 5000 6000 = 1000 \<and>
   TaskCore_now (env_at 6000) (core example_pvt_resumed) \<noteq> elapsed_excluding_pauses 0 5000 6000"
  by (simp add: example_pvt_paused_facts example_pvt_resumed_facts TaskCore_now_def env_at_def
      elapsed_excluding_pauses_def)

lemma run_initPerfTime:
  "initPerfTime (core (run pvt_step evs p)) = initPerfTime (core p)"
  "initPerfTime (core (run sart_step evs s)) = initPerfTime (core s)"
  "initPerfTime (core (run flanker_step evs f)) = initPerfTime (core f)"
  "initPerfTime (core (run ds_step evs d)) = initPerfTime (core d)"
  "initPerfTime (core (run mood_step evs m)) = initPerfTime (core m)"
  by (rule run_preserves [where f = "\<lambda>s. initPerfTime (core s)"],
      simp add: pvt_step_initPerfTime sart_step_initPerfTime flanker_step_initPerfTime
        ds_step_initPerfTime mood_step_initPerfTime)+

lemma now_after_init:
  "initPerfTime c = Some (perfNow e0) \<Longrightarrow> TaskCore_now e c = perfNow e - perfNow e0"
  by (simp add: TaskCore_now_def)

text \<open>
  C3, amended: \<open>TaskCore.now\<close> returns the performance-clock time elapsed since
  \<open>TaskCore.init\<close>, whatever events (pauses and resumes among them) the page has
  received since; no pause offset is kept, so a pause of length \<open>p\<close> followed by a
  resume advances the value by \<open>p\<close> as well. This holds on the pages of all five tasks.
\<close>

theorem now_counts_from_init_through_pauses:
  "TaskCore_now e core0 = 0 \<and>
   TaskCore_now e (TaskCore_init e0 sid tok) = perfNow e - perfNow e0 \<and>
   TaskCore_now e (core (run pvt_step evs (pvt_init e1 cfg (TaskCore_init e0 sid tok)))) =
     perfNow e - perfNow e0 \<and>
   TaskCore_now e (core (run sart_step evs (sart_init e1 cfg (TaskCore_init e0 sid tok)))) =
     perfNow e - perfNow e0 \<and>
   TaskCore_now e (core (run flanker_step evs (flanker_init e1 cfg (TaskCore_init e0 sid tok)))) =
     perfNow e - perfNow e0 \<and>
   TaskCore_now e (core (run ds_step evs (ds_init e1 cfg (TaskCore_init e0 sid tok)))) =
     perfNow e - perfNow e0 \<and>
   TaskCore_now e (core (run mood_step evs (mood_init e1 cfg (TaskCore_init e0 sid tok)))) =
     perfNow e - perfNow e0 \<and>
   TaskCore_now e (core (pvt_resume e2 (pvt_pause p))) = TaskCore_now e (core p) \<and>
   TaskCore_now e (core (sart_resume e2 (sart_pause s))) = TaskCore_now e (core s) \<and>
   TaskCore_now e (core (flanker_resume e2 (flanker_pause f))) = TaskCore_now e (core f) \<and>
   TaskCore_now e (core (ds_resume e2 (ds_pause d))) = TaskCore_now e (core d)"
proof -
  have init: "initPerfTime (TaskCore_init e0 sid tok) = Some (perfNow e0)"
    by (simp add: TaskCore_init_def core0_def)
  have sart: "TaskCore_now e (core (sart_resume e2 (sart_pause s))) = TaskCore_now e (core s)"
    by (simp add: TaskCore_now_def)
  have before: "TaskCore_now e core0 = 0"
    by (simp add: TaskCore_now_def core0_def)
  show ?thesis
    by (simp add: now_after_init run_initPerfTime init registerTask_def mood_init_def sart before)
qed

theorem now_counts_from_init_through_pauses_witness:
  "TaskCore_now (env_at 6000)
     (core (run pvt_step [(env_at 1000, VisibilityHidden), (env_at 6000, VisibilityVisible)]
        (pvt_init (env_at 0) example_config (TaskCore_init (env_at 0) JNull JNull)))) = 6000"
  using now_counts_from_init_through_pauses
    [where e = "env_at 6000" and ?e0.0 = "env_at 0" and ?e1.0 = "env_at 0" and cfg = example_config
       and sid = JNull and tok = JNull
       and evs = "[(env_at 1000, VisibilityHidden), (env_at 6000, VisibilityVisible)]"]
  by (simp add: env_at_def)

section \<open>Claims about submission at the end of a task\<close>









section \<open>Claims about timers during a pause\<close>
















lemma pause_frames [simp]:
  "nextTimerId (pvt_pause p) = nextTimerId p"
  "nextTimerId (sart_pause s) = nextTimerId s"
  "isRunning (sart_pause s) = isRunning s"
  "seqIndex (sart_pause s) = seqIndex s"
  "nextTimerId (flanker_pause f) = nextTimerId f"
  "isRunning (flanker_pause f) = isRunning f"
  by (simp_all add: pvt_pause_def sart_pause_def flanker_pause_def Let_def runner_ops pvt_ops
      split: option.splits)





end
